theory Spec2Isabelle
  imports Main "HOL-Library.Sublist"
begin

section \<open>Python values, exceptions and the environment\<close>

text \<open>
  The client in \<^verbatim>\<open>server/examples/bharatviz.py\<close> handles JSON-like Python values:
  the rows it sends and the parsed body it receives. A \<^verbatim>\<open>dict\<close> is an association list
  in insertion order; lookups take the first binding of a key. Numbers are integers here:
  the client never computes with the numbers it forwards.
\<close>

datatype pyval =
    PNone
  | PBool bool
  | PInt int
  | PStr string
  | PList "pyval list"
  | PDict "(string \<times> pyval) list"

type_synonym pydict = "(string \<times> pyval) list"

type_synonym bytes = "char list"

text \<open>
  The exceptions the modelled code can raise. \<open>BharatVizError\<close> is the class of lines 55-58;
  the others are Python's and the libraries' own.
\<close>

datatype exn =
    BharatVizError string
  | KeyError string
  | TypeError
  | AttributeError
  | RequestException string
  | Base64Error
  | UnidentifiedImageError
  | ValueError
  | OSError

datatype image = Image bytes

datatype file_content = RawBytes bytes | EncodedImage image

record http_call =
  call_endpoint :: string
  call_json :: pyval
  call_timeout :: nat

record response =
  status_code :: nat
  json_body :: "pyval option"

text \<open>
  What the code takes from its surroundings: the two module flags of lines 38-52, the
  \<^verbatim>\<open>requests\<close>, \<^verbatim>\<open>base64\<close>, PIL and matplotlib libraries, the file system, and
  Python's \<^verbatim>\<open>str\<close> of a value that is not a string. \<open>json_body\<close> is \<open>None\<close> when the
  body does not parse as JSON. \<open>image_save\<close>, \<open>mpl_show\<close> and \<open>file_write\<close> give the
  exception that \<^verbatim>\<open>image.save(path)\<close>, the \<^verbatim>\<open>plt\<close> calls and
  \<^verbatim>\<open>open(path, "wb")\<close> with \<^verbatim>\<open>f.write\<close> raise, or \<open>None\<close> when they return.
\<close>

record env =
  PIL_AVAILABLE :: bool
  MPL_AVAILABLE :: bool
  requests_post :: "http_call \<Rightarrow> exn + response"
  http_error_str :: "response \<Rightarrow> string"
  b64decode :: "string \<Rightarrow> exn + bytes"
  pil_identifies :: "bytes \<Rightarrow> bool"
  py_str_other :: "pyval \<Rightarrow> string"
  image_save :: "image \<Rightarrow> string \<Rightarrow> exn option"
  mpl_show :: "image \<Rightarrow> string \<Rightarrow> int \<times> int \<Rightarrow> exn option"
  file_write :: "string \<Rightarrow> bytes \<Rightarrow> exn option"

record BharatViz =
  api_url :: string
  states_endpoint :: string
  districts_endpoint :: string

text \<open>
  The state the operations act on: the client object, the HTTP requests issued so far
  (oldest first), the files written so far and the figures displayed so far.
\<close>

record world =
  client :: BharatViz
  http_log :: "http_call list"
  files :: "(string \<times> file_content) list"
  displayed :: "(image \<times> string \<times> int \<times> int) list"

section \<open>Python primitives\<close>

fun py_truthy :: "pyval \<Rightarrow> bool" where
  "py_truthy PNone = False"
| "py_truthy (PBool b) = b"
| "py_truthy (PInt i) = (i \<noteq> 0)"
| "py_truthy (PStr s) = (s \<noteq> [])"
| "py_truthy (PList xs) = (xs \<noteq> [])"
| "py_truthy (PDict d) = (d \<noteq> [])"

text \<open>\<^verbatim>\<open>v.get(k, default)\<close>: only a dict has the method.\<close>

fun py_get :: "pyval \<Rightarrow> string \<Rightarrow> pyval \<Rightarrow> exn + pyval" where
  "py_get (PDict d) k dflt = Inr (case map_of d k of Some v \<Rightarrow> v | None \<Rightarrow> dflt)"
| "py_get _ k dflt = Inl AttributeError"

text \<open>\<^verbatim>\<open>v[k]\<close> with a string key \<open>k\<close>.\<close>

fun py_getitem :: "pyval \<Rightarrow> string \<Rightarrow> exn + pyval" where
  "py_getitem (PDict d) k = (case map_of d k of Some v \<Rightarrow> Inr v | None \<Rightarrow> Inl (KeyError k))"
| "py_getitem _ k = Inl TypeError"

text \<open>\<^verbatim>\<open>for e in v\<close>: the elements of a list, the keys of a dict, the characters of a string.\<close>

fun py_iter :: "pyval \<Rightarrow> exn + pyval list" where
  "py_iter (PList xs) = Inr xs"
| "py_iter (PDict d) = Inr (map (\<lambda>kv. PStr (fst kv)) d)"
| "py_iter (PStr s) = Inr (map (\<lambda>c. PStr [c]) s)"
| "py_iter _ = Inl TypeError"

text \<open>The value of \<^verbatim>\<open>f"{v}"\<close>: a string is inserted as it is.\<close>

definition py_format :: "env \<Rightarrow> pyval \<Rightarrow> string" where
  "py_format e v = (case v of PStr s \<Rightarrow> s | _ \<Rightarrow> py_str_other e v)"

text \<open>\<^verbatim>\<open>sep.join(xs)\<close>.\<close>

fun join :: "string \<Rightarrow> string list \<Rightarrow> string" where
  "join sep [] = []"
| "join sep [x] = x"
| "join sep (x # y # ys) = x @ sep @ join sep (y # ys)"

text \<open>
  \<^verbatim>\<open>repr\<close> of a string that has no quote, no backslash and only printable ASCII
  characters is the string between single quotes; another string is escaped by Python,
  which the environment supplies.
\<close>

definition plain_char :: "char \<Rightarrow> bool" where
  "plain_char c = ((32::nat) \<le> of_char c \<and> (of_char c :: nat) < 127
      \<and> c \<noteq> CHR 0x27 \<and> c \<noteq> CHR 0x5C)"

definition py_repr_str :: "env \<Rightarrow> string \<Rightarrow> string" where
  "py_repr_str e s =
     (if list_all plain_char s then [CHR 0x27] @ s @ [CHR 0x27]
      else py_str_other e (PStr s))"

text \<open>\<^verbatim>\<open>str\<close> of a list of strings, as in \<^verbatim>\<open>f"{list(data.columns)}"\<close>.\<close>

definition py_str_list :: "env \<Rightarrow> string list \<Rightarrow> string" where
  "py_str_list e xs = ''['' @ join '', '' (map (py_repr_str e) xs) @ '']''"

section \<open>The client object\<close>

definition COLOR_SCALES :: "string list" where
  "COLOR_SCALES =
     [''spectral'', ''rdylbu'', ''rdylgn'', ''brbg'', ''piyg'', ''puor'', ''blues'',
      ''greens'', ''reds'', ''oranges'', ''purples'', ''pinks'', ''viridis'', ''plasma'',
      ''inferno'', ''magma'']"

text \<open>\<^verbatim>\<open>s.rstrip("/")\<close>.\<close>

definition rstrip_slash :: "string \<Rightarrow> string" where
  "rstrip_slash s = rev (dropWhile (\<lambda>c. c = CHR ''/'') (rev s))"

text \<open>\<^verbatim>\<open>BharatViz.__init__\<close>, lines 91-94.\<close>

definition BharatViz_init :: "string \<Rightarrow> BharatViz" where
  "BharatViz_init url =
     (let u = rstrip_slash url in
      \<lparr>api_url = u,
       states_endpoint = u @ ''/api/v1/states/map'',
       districts_endpoint = u @ ''/api/v1/districts/map''\<rparr>)"

section \<open>Tabular input\<close>

text \<open>
  A pandas \<^verbatim>\<open>DataFrame\<close> is its column labels and its rows, each row holding one cell
  per column. pandas allows a label to occur twice.
\<close>

record dataframe =
  df_columns :: "string list"
  df_rows :: "pyval list list"


datatype table_input = RowList "pydict list" | DataFrame dataframe

text \<open>\<^verbatim>\<open>d[k] = v\<close>: an existing key keeps its place and takes the new value.\<close>

fun dict_set :: "pydict \<Rightarrow> string \<Rightarrow> pyval \<Rightarrow> pydict" where
  "dict_set [] k v = [(k, v)]"
| "dict_set ((k', v') # d) k v =
     (if k' = k then (k, v) # d else (k', v') # dict_set d k v)"

text \<open>\<^verbatim>\<open>dict(pairs)\<close>: the pairs are stored from left to right.\<close>

definition py_dict :: "(string \<times> pyval) list \<Rightarrow> pydict" where
  "py_dict kvs = foldl (\<lambda>d kv. dict_set d (fst kv) (snd kv)) [] kvs"


text \<open>The positions of a label among the columns, in column order.\<close>

definition positions :: "string list \<Rightarrow> string \<Rightarrow> nat list" where
  "positions cols l = filter (\<lambda>i. cols ! i = l) [0..<length cols]"

text \<open>
  \<^verbatim>\<open>df[labels]\<close> with a list of labels: every column carrying a wanted label, label by
  label; a label that no column carries raises \<^verbatim>\<open>KeyError\<close>.
\<close>

definition df_select :: "dataframe \<Rightarrow> string list \<Rightarrow> exn + dataframe" where
  "df_select df labels =
     (case filter (\<lambda>l. l \<notin> set (df_columns df)) labels of
        l # _ \<Rightarrow> Inl (KeyError l)
      | [] \<Rightarrow>
          (let idx = concat (map (positions (df_columns df)) labels) in
           Inr \<lparr>df_columns = map (\<lambda>i. df_columns df ! i) idx,
                df_rows = map (\<lambda>r. map (\<lambda>i. r ! i) idx) (df_rows df)\<rparr>))"

text \<open>\<^verbatim>\<open>df.to_dict("records")\<close>: one dict per row, built from the (label, cell) pairs.\<close>

definition to_dict_records :: "dataframe \<Rightarrow> pydict list" where
  "to_dict_records df = map (\<lambda>r. py_dict (zip (df_columns df) r)) (df_rows df)"

text \<open>
  Lines 171-184 of \<^verbatim>\<open>generate_map\<close> and 351-364 of \<^verbatim>\<open>generate_districts_map\<close>, which
  differ in the required columns and in the words of the message only:
  \<open>required\<close> is \<^verbatim>\<open>required_cols\<close> and \<open>names\<close> is how the message spells them.
\<close>

definition normalize_data :: "env \<Rightarrow> string list \<Rightarrow> string \<Rightarrow> table_input \<Rightarrow> exn + pydict list" where
  "normalize_data e required names input =
     (case input of
        RowList rows \<Rightarrow> Inr rows
      | DataFrame df \<Rightarrow>
          (if \<not> list_all (\<lambda>c. c \<in> set (df_columns df)) required then
             (if length (df_columns df) \<ge> length required then
                (case df_select
                        (df\<lparr>df_columns := required @ drop (length required) (df_columns df)\<rparr>)
                        required of
                   Inl x \<Rightarrow> Inl x
                 | Inr sel \<Rightarrow> Inr (to_dict_records sel))
              else
                Inl (BharatVizError
                       (''DataFrame must have '' @ names @ '' columns. Got: ''
                        @ py_str_list e (df_columns df))))
           else
             (case df_select df required of
                Inl x \<Rightarrow> Inl x
              | Inr sel \<Rightarrow> Inr (to_dict_records sel))))"

definition states_required :: "string list" where
  "states_required = [''state'', ''value'']"

definition districts_required :: "string list" where
  "districts_required = [''state'', ''district'', ''value'']"

definition states_names :: string where
  "states_names = [CHR 0x27] @ ''state'' @ [CHR 0x27] @ '' and ''
                  @ [CHR 0x27] @ ''value'' @ [CHR 0x27]"

definition districts_names :: string where
  "districts_names = [CHR 0x27] @ ''state'' @ [CHR 0x27] @ '', ''
                     @ [CHR 0x27] @ ''district'' @ [CHR 0x27] @ '' and ''
                     @ [CHR 0x27] @ ''value'' @ [CHR 0x27]"

section \<open>Options and results\<close>

text \<open>
  The keyword parameters of \<^verbatim>\<open>generate_map\<close> (lines 96-127) and of
  \<^verbatim>\<open>generate_districts_map\<close> (lines 273-305). \<open>save_path = None\<close> is Python's
  \<^verbatim>\<open>None\<close>, and \<open>show_map\<close> is the parameter \<^verbatim>\<open>show\<close>.
\<close>

record common_opts =
  title :: string
  legend_title :: string
  color_scale :: string
  invert_colors :: bool
  hide_values :: bool
  formats :: "string list"
  show_map :: bool
  save_path :: "string option"
  return_all :: bool
  figsize :: "int \<times> int"

record states_opts = common_opts +
  hide_state_names :: bool

record districts_opts = common_opts +
  map_type :: string
  show_state_boundaries :: bool

definition default_states_opts :: states_opts where
  "default_states_opts =
     \<lparr>title = ''BharatViz'', legend_title = ''Values'', color_scale = ''spectral'',
      invert_colors = False, hide_values = False, formats = [''png''], show_map = False,
      save_path = None, return_all = False, figsize = (12, 12),
      hide_state_names = False\<rparr>"

definition default_districts_opts :: districts_opts where
  "default_districts_opts =
     \<lparr>title = ''BharatViz Districts'', legend_title = ''Values'',
      color_scale = ''spectral'', invert_colors = False, hide_values = False,
      formats = [''png''], show_map = False, save_path = None, return_all = False,
      figsize = (12, 12), map_type = ''LGD'', show_state_boundaries = True\<rparr>"

text \<open>
  What a map call returns: the image, or with \<^verbatim>\<open>return_all\<close> the dict with the keys
  \<^verbatim>\<open>image\<close>, \<^verbatim>\<open>exports\<close> and \<^verbatim>\<open>metadata\<close>.
\<close>

datatype ret = RetImage image | RetAll image pyval pyval

section \<open>Validation and the request body\<close>

text \<open>Lines 186-195 and 366-375.\<close>

definition validate_common :: "pydict list \<Rightarrow> string \<Rightarrow> exn + unit" where
  "validate_common data cs =
     (if data = [] then Inl (BharatVizError ''Data cannot be empty'')
      else if cs \<notin> set COLOR_SCALES then
        Inl (BharatVizError
               (''Invalid color scale '' @ [CHR 0x27] @ cs @ [CHR 0x27]
                @ ''. Choose from: '' @ join '', '' COLOR_SCALES))
      else Inr ())"

definition valid_map_types :: "string list" where
  "valid_map_types = [''LGD'', ''NFHS5'', ''NFHS4'']"

text \<open>Lines 377-383.\<close>

definition validate_map_type :: "string \<Rightarrow> exn + unit" where
  "validate_map_type mt =
     (if mt \<notin> set valid_map_types then
        Inl (BharatVizError
               (''Invalid map_type '' @ [CHR 0x27] @ mt @ [CHR 0x27]
                @ ''. Choose from: '' @ join '', '' valid_map_types))
      else Inr ())"

text \<open>Lines 197-207.\<close>

definition states_request_body :: "pydict list \<Rightarrow> states_opts \<Rightarrow> pyval" where
  "states_request_body data opts =
     PDict [(''data'', PList (map PDict data)),
            (''colorScale'', PStr (color_scale opts)),
            (''invertColors'', PBool (invert_colors opts)),
            (''hideStateNames'', PBool (hide_state_names opts)),
            (''hideValues'', PBool (hide_values opts)),
            (''mainTitle'', PStr (title opts)),
            (''legendTitle'', PStr (legend_title opts)),
            (''formats'', PList (map PStr (formats opts)))]"

text \<open>Lines 385-396.\<close>

definition districts_request_body :: "pydict list \<Rightarrow> districts_opts \<Rightarrow> pyval" where
  "districts_request_body data opts =
     PDict [(''data'', PList (map PDict data)),
            (''mapType'', PStr (map_type opts)),
            (''colorScale'', PStr (color_scale opts)),
            (''invertColors'', PBool (invert_colors opts)),
            (''hideValues'', PBool (hide_values opts)),
            (''showStateBoundaries'', PBool (show_state_boundaries opts)),
            (''mainTitle'', PStr (title opts)),
            (''legendTitle'', PStr (legend_title opts)),
            (''formats'', PList (map PStr (formats opts)))]"

section \<open>Transport\<close>

text \<open>
  Lines 209-222 and 398-413: one POST, logged whether or not it succeeds, then
  \<^verbatim>\<open>raise_for_status\<close> and \<^verbatim>\<open>response.json()\<close>. Only a \<^verbatim>\<open>RequestException\<close> is caught.
\<close>

definition api_request :: "env \<Rightarrow> string \<Rightarrow> pyval \<Rightarrow> nat \<Rightarrow> world \<Rightarrow> world \<times> (exn + pyval)" where
  "api_request e endpoint body tmo w =
     (let c = \<lparr>call_endpoint = endpoint, call_json = body, call_timeout = tmo\<rparr>;
          w' = w\<lparr>http_log := http_log w @ [c]\<rparr>
      in case requests_post e c of
           Inl x \<Rightarrow>
             (w', Inl (case x of
                         RequestException m \<Rightarrow> BharatVizError (''API request failed: '' @ m)
                       | _ \<Rightarrow> x))
         | Inr r \<Rightarrow>
             (if 400 \<le> status_code r \<and> status_code r < 600 then
                (w', Inl (BharatVizError (''API request failed: '' @ http_error_str e r)))
              else
                (case json_body r of
                   None \<Rightarrow> (w', Inl (BharatVizError ''Invalid JSON response from API''))
                 | Some v \<Rightarrow> (w', Inr v))))"

section \<open>Decoding the response\<close>

text \<open>Lines 224-226 and 415-417.\<close>

definition check_success :: "env \<Rightarrow> pyval \<Rightarrow> exn + unit" where
  "check_success e result =
     (case py_get result ''success'' PNone of
        Inl x \<Rightarrow> Inl x
      | Inr s \<Rightarrow>
          (if \<not> py_truthy s then
             (case py_get result ''error'' (PDict []) of
                Inl x \<Rightarrow> Inl x
              | Inr er \<Rightarrow>
                  (case py_get er ''message'' (PStr ''Unknown error'') of
                     Inl x \<Rightarrow> Inl x
                   | Inr m \<Rightarrow> Inl (BharatVizError (''API error: '' @ py_format e m))))
           else Inr ()))"

text \<open>
  \<^verbatim>\<open>next((e for e in exports if e["format"] == "png"), None)\<close>: the first element whose
  format is \<^verbatim>\<open>"png"\<close>; the elements after it are not looked at.
\<close>

fun find_png :: "pyval list \<Rightarrow> exn + pyval option" where
  "find_png [] = Inr None"
| "find_png (x # xs) =
     (case py_getitem x ''format'' of
        Inl err \<Rightarrow> Inl err
      | Inr f \<Rightarrow> (if f = PStr ''png'' then Inr (Some x) else find_png xs))"

text \<open>\<^verbatim>\<open>Image.open(BytesIO(bs))\<close>: the image is backed by the bytes it was opened on.\<close>

definition Image_open :: "env \<Rightarrow> bytes \<Rightarrow> exn + image" where
  "Image_open e bs = (if pil_identifies e bs then Inr (Image bs) else Inl UnidentifiedImageError)"

text \<open>\<^verbatim>\<open>base64.b64decode(v)\<close> of a value of the response.\<close>

definition py_b64decode :: "env \<Rightarrow> pyval \<Rightarrow> exn + bytes" where
  "py_b64decode e v = (case v of PStr s \<Rightarrow> b64decode e s | _ \<Rightarrow> Inl TypeError)"

text \<open>Lines 228-241 and 419-432.\<close>

definition decode_image :: "env \<Rightarrow> pyval \<Rightarrow> exn + image" where
  "decode_image e result =
     (case py_getitem result ''exports'' of
        Inl x \<Rightarrow> Inl x
      | Inr ex \<Rightarrow>
     (case py_iter ex of
        Inl x \<Rightarrow> Inl x
      | Inr es \<Rightarrow>
     (case find_png es of
        Inl x \<Rightarrow> Inl x
      | Inr None \<Rightarrow> Inl (BharatVizError ''PNG export not found in response'')
      | Inr (Some png_export) \<Rightarrow>
          (if \<not> py_truthy png_export then
             Inl (BharatVizError ''PNG export not found in response'')
           else if \<not> PIL_AVAILABLE e then
             Inl (BharatVizError
                    ''PIL is required to handle images. Install with: pip install pillow'')
           else
             (case py_getitem png_export ''data'' of
                Inl x \<Rightarrow> Inl x
              | Inr png_data \<Rightarrow>
                  (case py_b64decode e png_data of
                     Inl x \<Rightarrow> Inl x
                   | Inr bs \<Rightarrow> Image_open e bs))))))"

text \<open>
  The file that lines 244-245 and 435-436 write: none when \<^verbatim>\<open>save_path\<close> is \<^verbatim>\<open>None\<close>
  or empty.
\<close>

definition saved_file :: "string option \<Rightarrow> image \<Rightarrow> (string \<times> file_content) list" where
  "saved_file sp img =
     (case sp of
        None \<Rightarrow> []
      | Some p \<Rightarrow> (if p = [] then [] else [(p, EncodedImage img)]))"

text \<open>Lines 243-246 and 434-437: \<^verbatim>\<open>image.save(save_path)\<close>, which may raise.\<close>

definition save_image :: "env \<Rightarrow> image \<Rightarrow> string option \<Rightarrow> world \<Rightarrow> world \<times> (exn + unit)" where
  "save_image e img sp w =
     (case sp of
        None \<Rightarrow> (w, Inr ())
      | Some p \<Rightarrow>
          (if p = [] then (w, Inr ())
           else
             (case image_save e img p of
                Some x \<Rightarrow> (w, Inl x)
              | None \<Rightarrow> (w\<lparr>files := files w @ [(p, EncodedImage img)]\<rparr>, Inr ()))))"

text \<open>Lines 248-261 and 439-452: the display, which needs matplotlib and may raise.\<close>

definition display_image :: "env \<Rightarrow> image \<Rightarrow> 'a common_opts_scheme \<Rightarrow> world \<Rightarrow> world \<times> (exn + unit)" where
  "display_image e img opts w =
     (if \<not> show_map opts then (w, Inr ())
      else if \<not> MPL_AVAILABLE e then
        (w, Inl (BharatVizError
                   (''matplotlib is required to display images. ''
                    @ ''Install with: pip install matplotlib'')))
      else
        (case mpl_show e img (title opts) (figsize opts) of
           Some x \<Rightarrow> (w, Inl x)
         | None \<Rightarrow>
             (w\<lparr>displayed := displayed w
                                @ [(img, title opts, fst (figsize opts), snd (figsize opts))]\<rparr>,
              Inr ())))"

text \<open>
  Lines 243-271 and 434-462: save, display, return. What \<^verbatim>\<open>print\<close> writes is left out.
\<close>

definition present :: "env \<Rightarrow> pyval \<Rightarrow> image \<Rightarrow> 'a common_opts_scheme \<Rightarrow> world \<Rightarrow> world \<times> (exn + ret)" where
  "present e result img opts w =
     (case save_image e img (save_path opts) w of
        (w1, Inl x) \<Rightarrow> (w1, Inl x)
      | (w1, Inr _) \<Rightarrow>
     (case display_image e img opts w1 of
        (w2, Inl x) \<Rightarrow> (w2, Inl x)
      | (w2, Inr _) \<Rightarrow>
          (if return_all opts then
             (case py_getitem result ''exports'' of
                Inl x \<Rightarrow> (w2, Inl x)
              | Inr ex \<Rightarrow>
                  (case py_getitem result ''metadata'' of
                     Inl x \<Rightarrow> (w2, Inl x)
                   | Inr md \<Rightarrow> (w2, Inr (RetAll img ex md))))
           else (w2, Inr (RetImage img)))))"

text \<open>Lines 224-271 and 415-462 together: everything after the body has been parsed.\<close>

definition decode_response :: "env \<Rightarrow> pyval \<Rightarrow> 'a common_opts_scheme \<Rightarrow> world \<Rightarrow> world \<times> (exn + ret)" where
  "decode_response e result opts w =
     (case check_success e result of
        Inl x \<Rightarrow> (w, Inl x)
      | Inr _ \<Rightarrow>
          (case decode_image e result of
             Inl x \<Rightarrow> (w, Inl x)
           | Inr img \<Rightarrow> present e result img opts w))"

section \<open>The operations\<close>

text \<open>\<^verbatim>\<open>BharatViz.generate_map\<close>, lines 96-271.\<close>

definition generate_map :: "env \<Rightarrow> table_input \<Rightarrow> states_opts \<Rightarrow> world \<Rightarrow> world \<times> (exn + ret)" where
  "generate_map e input opts w =
     (case normalize_data e states_required states_names input of
        Inl x \<Rightarrow> (w, Inl x)
      | Inr data \<Rightarrow>
     (case validate_common data (color_scale opts) of
        Inl x \<Rightarrow> (w, Inl x)
      | Inr _ \<Rightarrow>
     (case api_request e (states_endpoint (client w)) (states_request_body data opts) 30 w of
        (w1, Inl x) \<Rightarrow> (w1, Inl x)
      | (w1, Inr result) \<Rightarrow> decode_response e result opts w1)))"

text \<open>\<^verbatim>\<open>BharatViz.generate_districts_map\<close>, lines 273-462.\<close>

definition generate_districts_map :: "env \<Rightarrow> table_input \<Rightarrow> districts_opts \<Rightarrow> world \<Rightarrow> world \<times> (exn + ret)" where
  "generate_districts_map e input opts w =
     (case normalize_data e districts_required districts_names input of
        Inl x \<Rightarrow> (w, Inl x)
      | Inr data \<Rightarrow>
     (case validate_common data (color_scale opts) of
        Inl x \<Rightarrow> (w, Inl x)
      | Inr _ \<Rightarrow>
     (case validate_map_type (map_type opts) of
        Inl x \<Rightarrow> (w, Inl x)
      | Inr _ \<Rightarrow>
     (case api_request e (districts_endpoint (client w))
             (districts_request_body data opts) 60 w of
        (w1, Inl x) \<Rightarrow> (w1, Inl x)
      | (w1, Inr result) \<Rightarrow> decode_response e result opts w1))))"

text \<open>
  \<^verbatim>\<open>BharatViz.get_metadata\<close>, lines 464-479: a states call asking for SVG only, with
  \<^verbatim>\<open>return_all\<close>.
\<close>

definition get_metadata :: "env \<Rightarrow> table_input \<Rightarrow> world \<Rightarrow> world \<times> (exn + pyval)" where
  "get_metadata e input w =
     (case generate_map e input
             (default_states_opts\<lparr>formats := [''svg''], return_all := True\<rparr>) w of
        (w1, Inl x) \<Rightarrow> (w1, Inl x)
      | (w1, Inr (RetAll img ex md)) \<Rightarrow> (w1, Inr md)
      | (w1, Inr (RetImage img)) \<Rightarrow> (w1, Inl TypeError))"

text \<open>
  The \<^verbatim>\<open>**kwargs\<close> of \<^verbatim>\<open>save_all_formats\<close>: each keyword is given or not.
  \<^verbatim>\<open>formats\<close> and \<^verbatim>\<open>return_all\<close> are fixed by the caller and \<^verbatim>\<open>map_type\<close> is a
  parameter of \<^verbatim>\<open>save_all_formats\<close> itself, so none of them can arrive here. A keyword
  that the called method does not have is a \<^verbatim>\<open>TypeError\<close>.
\<close>

record kwargs =
  kw_title :: "string option"
  kw_legend_title :: "string option"
  kw_color_scale :: "string option"
  kw_invert_colors :: "bool option"
  kw_hide_state_names :: "bool option"
  kw_hide_values :: "bool option"
  kw_show_state_boundaries :: "bool option"
  kw_show :: "bool option"
  kw_save_path :: "string option"
  kw_figsize :: "(int \<times> int) option"

definition no_kwargs :: kwargs where
  "no_kwargs =
     \<lparr>kw_title = None, kw_legend_title = None, kw_color_scale = None,
      kw_invert_colors = None, kw_hide_state_names = None, kw_hide_values = None,
      kw_show_state_boundaries = None, kw_show = None, kw_save_path = None,
      kw_figsize = None\<rparr>"

definition kw_or :: "'a \<Rightarrow> 'a option \<Rightarrow> 'a" where
  "kw_or dflt v = (case v of None \<Rightarrow> dflt | Some x \<Rightarrow> x)"

definition states_kwargs :: "kwargs \<Rightarrow> exn + states_opts" where
  "states_kwargs kw =
     (if kw_show_state_boundaries kw \<noteq> None then Inl TypeError
      else Inr
        \<lparr>title = kw_or ''BharatViz'' (kw_title kw),
         legend_title = kw_or ''Values'' (kw_legend_title kw),
         color_scale = kw_or ''spectral'' (kw_color_scale kw),
         invert_colors = kw_or False (kw_invert_colors kw),
         hide_values = kw_or False (kw_hide_values kw),
         formats = [''png'', ''svg'', ''pdf''],
         show_map = kw_or False (kw_show kw),
         save_path = kw_save_path kw,
         return_all = True,
         figsize = kw_or (12, 12) (kw_figsize kw),
         hide_state_names = kw_or False (kw_hide_state_names kw)\<rparr>)"

definition districts_kwargs :: "kwargs \<Rightarrow> exn + districts_opts" where
  "districts_kwargs kw =
     (if kw_hide_state_names kw \<noteq> None then Inl TypeError
      else Inr
        \<lparr>title = kw_or ''BharatViz Districts'' (kw_title kw),
         legend_title = kw_or ''Values'' (kw_legend_title kw),
         color_scale = kw_or ''spectral'' (kw_color_scale kw),
         invert_colors = kw_or False (kw_invert_colors kw),
         hide_values = kw_or False (kw_hide_values kw),
         formats = [''png'', ''svg'', ''pdf''],
         show_map = kw_or False (kw_show kw),
         save_path = kw_save_path kw,
         return_all = True,
         figsize = kw_or (12, 12) (kw_figsize kw),
         map_type = ''LGD'',
         show_state_boundaries = kw_or True (kw_show_state_boundaries kw)\<rparr>)"

text \<open>
  The loop of lines 523-531: one file per export, in the order of the list. A file is
  recorded once \<^verbatim>\<open>open\<close> and \<^verbatim>\<open>f.write\<close> have returned; when one of them raises, the
  loop ends there.
\<close>

fun save_exports :: "env \<Rightarrow> string \<Rightarrow> pyval list \<Rightarrow> world \<Rightarrow> world \<times> (exn + unit)" where
  "save_exports e basename [] w = (w, Inr ())"
| "save_exports e basename (x # xs) w =
     (case py_getitem x ''format'' of
        Inl err \<Rightarrow> (w, Inl err)
      | Inr f \<Rightarrow>
          (let filename = basename @ ''.'' @ py_format e f
           in case py_getitem x ''data'' of
                Inl err \<Rightarrow> (w, Inl err)
              | Inr d \<Rightarrow>
                  (case py_b64decode e d of
                     Inl err \<Rightarrow> (w, Inl err)
                   | Inr file_data \<Rightarrow>
                       (case file_write e filename file_data of
                          Some err \<Rightarrow> (w, Inl err)
                        | None \<Rightarrow>
                            save_exports e basename xs
                              (w\<lparr>files := files w @ [(filename, RawBytes file_data)]\<rparr>)))))"

text \<open>Lines 514-521 of \<^verbatim>\<open>save_all_formats\<close>: the map call, asking for all three formats.\<close>

definition map_call :: "env \<Rightarrow> table_input \<Rightarrow> string \<Rightarrow> kwargs \<Rightarrow> world \<Rightarrow> world \<times> (exn + ret)" where
  "map_call e input mt kw w =
     (if mt = ''districts'' then
        (case districts_kwargs kw of
           Inl x \<Rightarrow> (w, Inl x)
         | Inr opts \<Rightarrow> generate_districts_map e input opts w)
      else
        (case states_kwargs kw of
           Inl x \<Rightarrow> (w, Inl x)
         | Inr opts \<Rightarrow> generate_map e input opts w))"

text \<open>\<^verbatim>\<open>BharatViz.save_all_formats\<close>, lines 481-531.\<close>

definition save_all_formats :: "env \<Rightarrow> table_input \<Rightarrow> string \<Rightarrow> string \<Rightarrow> kwargs \<Rightarrow> world \<Rightarrow> world \<times> (exn + unit)" where
  "save_all_formats e input basename mt kw w =
     (case map_call e input mt kw w of
        (w1, Inl x) \<Rightarrow> (w1, Inl x)
      | (w1, Inr (RetImage img)) \<Rightarrow> (w1, Inl TypeError)
      | (w1, Inr (RetAll img ex md)) \<Rightarrow>
          (case py_iter ex of
             Inl x \<Rightarrow> (w1, Inl x)
           | Inr es \<Rightarrow> save_exports e basename es w1))"

section \<open>A test environment\<close>

text \<open>
  A decoder for canonical, padded base64 text (RFC 4648), on which Python's
  \<^verbatim>\<open>b64decode\<close> gives the same bytes; it stands for the library where an example needs a
  concrete one.
\<close>

definition b64_alphabet :: string where
  "b64_alphabet = ''ABCDEFGHIJKLMNOPQRSTUVWXYZabcdefghijklmnopqrstuvwxyz0123456789+/''"

fun index_of :: "char \<Rightarrow> string \<Rightarrow> nat option" where
  "index_of c [] = None"
| "index_of c (x # xs) =
     (if c = x then Some 0 else map_option Suc (index_of c xs))"

definition sextet :: "char \<Rightarrow> nat option" where
  "sextet c = index_of c b64_alphabet"

fun b64_strict :: "string \<Rightarrow> exn + bytes" where
  "b64_strict [] = Inr []"
| "b64_strict (a # b # c # d # rest) =
     (case (sextet a, sextet b) of
        (Some x, Some y) \<Rightarrow>
          (if c = CHR ''='' \<and> d = CHR ''='' \<and> rest = [] then
             Inr [char_of (x * 4 + y div 16)]
           else
             (case sextet c of
                None \<Rightarrow> Inl Base64Error
              | Some z \<Rightarrow>
                  (if d = CHR ''='' \<and> rest = [] then
                     Inr [char_of (x * 4 + y div 16), char_of ((y mod 16) * 16 + z div 4)]
                   else
                     (case sextet d of
                        None \<Rightarrow> Inl Base64Error
                      | Some u \<Rightarrow>
                          (case b64_strict rest of
                             Inl err \<Rightarrow> Inl err
                           | Inr bs \<Rightarrow>
                               Inr (char_of (x * 4 + y div 16)
                                    # char_of ((y mod 16) * 16 + z div 4)
                                    # char_of ((z mod 4) * 64 + u) # bs))))))
      | _ \<Rightarrow> Inl Base64Error)"
| "b64_strict _ = Inl Base64Error"

text \<open>
  An environment in which both optional libraries are present, every POST is answered
  with a given response, every decoded payload is taken for an image, and saving,
  displaying and writing succeed.
\<close>

definition env_with :: "response \<Rightarrow> env" where
  "env_with r =
     \<lparr>PIL_AVAILABLE = True, MPL_AVAILABLE = True,
      requests_post = (\<lambda>c. Inr r),
      http_error_str = (\<lambda>r. ''HTTP error''),
      b64decode = b64_strict,
      pil_identifies = (\<lambda>bs. True),
      py_str_other = (\<lambda>v. ''?''),
      image_save = (\<lambda>img p. None),
      mpl_show = (\<lambda>img t sz. None),
      file_write = (\<lambda>p bs. None)\<rparr>"

text \<open>The same environment, except that the file \<open>bad\<close> cannot be written.\<close>

definition env_write_fails :: "response \<Rightarrow> string \<Rightarrow> env" where
  "env_write_fails r bad =
     (env_with r)\<lparr>file_write := (\<lambda>p bs. if p = bad then Some OSError else None)\<rparr>"

definition ok_response :: "pyval \<Rightarrow> response" where
  "ok_response v = \<lparr>status_code = 200, json_body = Some v\<rparr>"

definition world0 :: world where
  "world0 =
     \<lparr>client = BharatViz_init ''http://bharatviz.saketlab.in'',
      http_log = [], files = [], displayed = []\<rparr>"

section \<open>Reading a request body\<close>

text \<open>The list under the key \<^verbatim>\<open>data\<close> of a request body.\<close>

definition request_data :: "pyval \<Rightarrow> pyval list" where
  "request_data body =
     (case py_getitem body ''data'' of Inr (PList ds) \<Rightarrow> ds | _ \<Rightarrow> [])"

text \<open>A value is a dict all of whose keys are among \<open>ks\<close>.\<close>

definition only_keys :: "string list \<Rightarrow> pyval \<Rightarrow> bool" where
  "only_keys ks v =
     (case v of PDict d \<Rightarrow> list_all (\<lambda>k. k \<in> set ks) (map fst d) | _ \<Rightarrow> False)"

section \<open>Reading a table\<close>


section \<open>The world after an operation\<close>

lemma rstrip_slash_decomp: "\<exists>n. url = rstrip_slash url @ replicate n (CHR ''/'')"
proof -
  have "rev url = takeWhile (\<lambda>c. c = CHR ''/'') (rev url) @ dropWhile (\<lambda>c. c = CHR ''/'') (rev url)"
    by simp
  then have "url = rev (dropWhile (\<lambda>c. c = CHR ''/'') (rev url)) @ rev (takeWhile (\<lambda>c. c = CHR ''/'') (rev url))"
    by (metis rev_append rev_rev_ident)
  moreover have "takeWhile (\<lambda>c. c = CHR ''/'') (rev url) = replicate (length (takeWhile (\<lambda>c. c = CHR ''/'') (rev url))) (CHR ''/'')"
    by (rule replicate_length_same[symmetric]) (auto dest: set_takeWhileD)
  ultimately show ?thesis unfolding rstrip_slash_def
    by (metis rev_replicate)
qed

lemma rstrip_slash_no_trailing: "\<not> suffix ''/'' (rstrip_slash url)"
proof
  assume "suffix ''/'' (rstrip_slash url)"
  then obtain p where "rev (dropWhile (\<lambda>c. c = CHR ''/'') (rev url)) = p @ ''/''"
    by (auto simp: suffix_def rstrip_slash_def)
  then have d: "dropWhile (\<lambda>c. c = CHR ''/'') (rev url) = CHR ''/'' # rev p"
    by (simp add: rev_swap)
  then have "dropWhile (\<lambda>c. c = CHR ''/'') (rev url) \<noteq> []" by simp
  then have "hd (dropWhile (\<lambda>c. c = CHR ''/'') (rev url)) \<noteq> CHR ''/''"
    by (rule hd_dropWhile)
  with d show False by simp
qed

lemma rstrip_slash_append_slash: "rstrip_slash (url @ ''/'') = rstrip_slash url"
  by (simp add: rstrip_slash_def)


lemma api_request_world:
  "api_request e ep body t w = (w1, r) \<Longrightarrow>
   w1 = w\<lparr>http_log := http_log w @ [\<lparr>call_endpoint = ep, call_json = body, call_timeout = t\<rparr>]\<rparr>"
  by (auto simp add: api_request_def Let_def split: sum.splits option.splits if_splits)

lemma save_image_world:
  "save_image e img sp w = (w1, r) \<Longrightarrow>
   client w1 = client w \<and> http_log w1 = http_log w
   \<and> (sp = None \<longrightarrow> files w1 = files w)
   \<and> (r = Inr () \<longrightarrow> files w1 = files w @ saved_file sp img)"
  by (auto simp add: save_image_def saved_file_def split: option.splits if_splits)

lemma display_image_world:
  "display_image e img opts w = (w1, r) \<Longrightarrow>
   client w1 = client w \<and> http_log w1 = http_log w \<and> files w1 = files w"
  by (auto simp add: display_image_def split: option.splits if_splits)

lemma present_world:
  "present e result img opts w = (w1, r) \<Longrightarrow>
   client w1 = client w \<and> http_log w1 = http_log w
   \<and> (save_path opts = None \<longrightarrow> files w1 = files w)"
  by (auto simp add: present_def split: sum.splits prod.splits if_splits
       dest!: save_image_world display_image_world)

lemma decode_response_world:
  "decode_response e result opts w = (w1, r) \<Longrightarrow>
   client w1 = client w \<and> http_log w1 = http_log w
   \<and> (save_path opts = None \<longrightarrow> files w1 = files w)"
  by (auto simp add: decode_response_def split: sum.splits dest: present_world)

lemma generate_map_world:
  "generate_map e input opts w = (w1, r) \<Longrightarrow>
   client w1 = client w
   \<and> (save_path opts = None \<longrightarrow> files w1 = files w)
   \<and> (http_log w1 = http_log w
       \<or> (\<exists>body. http_log w1 = http_log w
             @ [\<lparr>call_endpoint = states_endpoint (client w), call_json = body, call_timeout = 30\<rparr>]))"
  by (auto simp add: generate_map_def split: sum.splits prod.splits
       dest!: api_request_world decode_response_world)

lemma generate_districts_map_world:
  "generate_districts_map e input opts w = (w1, r) \<Longrightarrow>
   client w1 = client w
   \<and> (save_path opts = None \<longrightarrow> files w1 = files w)
   \<and> (http_log w1 = http_log w
       \<or> (\<exists>body. http_log w1 = http_log w
             @ [\<lparr>call_endpoint = districts_endpoint (client w), call_json = body, call_timeout = 60\<rparr>]))"
  by (auto simp add: generate_districts_map_def split: sum.splits prod.splits
       dest!: api_request_world decode_response_world)

lemma save_exports_world:
  "save_exports e b xs w = (w1, r) \<Longrightarrow> client w1 = client w \<and> http_log w1 = http_log w"
  by (induction e b xs w rule: save_exports.induct)
     (auto simp add: Let_def split: sum.splits option.splits)

lemma get_metadata_world:
  "get_metadata e input w = (w1, r) \<Longrightarrow> client w1 = client w"
  by (auto simp add: get_metadata_def split: sum.splits prod.splits ret.splits
       dest!: generate_map_world)

lemma map_call_world:
  "map_call e input mt kw w = (w1, r) \<Longrightarrow>
   client w1 = client w \<and> (kw_save_path kw = None \<longrightarrow> files w1 = files w)"
  by (auto simp add: map_call_def states_kwargs_def districts_kwargs_def
       split: sum.splits if_splits dest!: generate_map_world generate_districts_map_world)

lemma save_all_formats_world:
  "save_all_formats e input b mt kw w = (w1, r) \<Longrightarrow> client w1 = client w"
  by (auto simp add: save_all_formats_def split: sum.splits prod.splits ret.splits
       dest!: map_call_world save_exports_world)


lemma generate_map_request:
  assumes "normalize_data e states_required states_names input = Inr data"
    and "validate_common data (color_scale opts) = Inr ()"
  shows "http_log (fst (generate_map e input opts w)) =
         http_log w @ [\<lparr>call_endpoint = states_endpoint (client w),
                          call_json = states_request_body data opts, call_timeout = 30\<rparr>]"
proof -
  obtain w1 r where a: "api_request e (states_endpoint (client w))
      (states_request_body data opts) 30 w = (w1, r)" by (cases "api_request e (states_endpoint (client w))
      (states_request_body data opts) 30 w") 
  from api_request_world[OF a] have w1: "http_log w1 = http_log w @ [\<lparr>call_endpoint = states_endpoint (client w),
                          call_json = states_request_body data opts, call_timeout = 30\<rparr>]" by simp
  show ?thesis
  proof (cases r)
    case (Inl x)
    with a assms w1 show ?thesis by (simp add: generate_map_def)
  next
    case (Inr v)
    obtain w2 r2 where d: "decode_response e v opts w1 = (w2, r2)"
      by (cases "decode_response e v opts w1")
    from decode_response_world[OF d] have "http_log w2 = http_log w1" by simp
    with Inr a assms w1 d show ?thesis by (simp add: generate_map_def)
  qed
qed

lemma generate_districts_map_request:
  assumes "normalize_data e districts_required districts_names input = Inr data"
    and "validate_common data (color_scale opts) = Inr ()"
    and "validate_map_type (map_type opts) = Inr ()"
  shows "http_log (fst (generate_districts_map e input opts w)) =
         http_log w @ [\<lparr>call_endpoint = districts_endpoint (client w),
                          call_json = districts_request_body data opts, call_timeout = 60\<rparr>]"
proof -
  obtain w1 r where a: "api_request e (districts_endpoint (client w))
      (districts_request_body data opts) 60 w = (w1, r)" by (cases "api_request e (districts_endpoint (client w))
      (districts_request_body data opts) 60 w") 
  from api_request_world[OF a] have w1: "http_log w1 = http_log w @ [\<lparr>call_endpoint = districts_endpoint (client w),
                          call_json = districts_request_body data opts, call_timeout = 60\<rparr>]" by simp
  show ?thesis
  proof (cases r)
    case (Inl x)
    with a assms w1 show ?thesis by (simp add: generate_districts_map_def)
  next
    case (Inr v)
    obtain w2 r2 where d: "decode_response e v opts w1 = (w2, r2)"
      by (cases "decode_response e v opts w1")
    from decode_response_world[OF d] have "http_log w2 = http_log w1" by simp
    with Inr a assms w1 d show ?thesis by (simp add: generate_districts_map_def)
  qed
qed

text \<open>
  Claim C10. The constructor sets both endpoints to the API URL without its trailing
  slashes, followed by the fixed path: what is cut off the URL is slashes only and what is
  left does not end in a slash, so a URL with one more trailing slash gives the same
  client and no endpoint has two slashes where the URL and the path meet. None of the
  methods \<^verbatim>\<open>generate_map\<close>, \<^verbatim>\<open>generate_districts_map\<close>, \<^verbatim>\<open>get_metadata\<close> and
  \<^verbatim>\<open>save_all_formats\<close> changes the client object; \<^verbatim>\<open>compare_scales\<close> reaches the
  client through \<^verbatim>\<open>generate_map\<close> only, and the remaining functions of the module are
  static or build a client of their own.
\<close>

theorem endpoints_from_api_url:
  "states_endpoint (BharatViz_init url) = rstrip_slash url @ ''/api/v1/states/map''
   \<and> districts_endpoint (BharatViz_init url) = rstrip_slash url @ ''/api/v1/districts/map''
   \<and> (\<exists>n. url = rstrip_slash url @ replicate n (CHR ''/''))
   \<and> \<not> suffix ''/'' (rstrip_slash url)
   \<and> BharatViz_init (url @ ''/'') = BharatViz_init url
   \<and> \<not> suffix ''//api/v1/states/map'' (states_endpoint (BharatViz_init url))
   \<and> \<not> suffix ''//api/v1/districts/map'' (districts_endpoint (BharatViz_init url))
   \<and> client (fst (generate_map e input opts w)) = client w
   \<and> client (fst (generate_districts_map e input dopts w)) = client w
   \<and> client (fst (get_metadata e input w)) = client w
   \<and> client (fst (save_all_formats e input b mt kw w)) = client w"
proof -
  have s: "\<not> suffix (''/'' @ x) (rstrip_slash url @ x)" for x
    using rstrip_slash_no_trailing[of url] same_suffix_suffix[of "''/''" x "rstrip_slash url"]
    by blast
  have 1: "\<not> suffix ''//api/v1/states/map'' (states_endpoint (BharatViz_init url))"
    using s[of "''/api/v1/states/map''"] by (simp add: BharatViz_init_def Let_def)
  have 2: "\<not> suffix ''//api/v1/districts/map'' (districts_endpoint (BharatViz_init url))"
    using s[of "''/api/v1/districts/map''"] by (simp add: BharatViz_init_def Let_def)
  have 3: "client (fst (generate_map e input opts w)) = client w"
    using generate_map_world[of e input opts w] by (cases "generate_map e input opts w") simp
  have 4: "client (fst (generate_districts_map e input dopts w)) = client w"
    using generate_districts_map_world[of e input dopts w]
    by (cases "generate_districts_map e input dopts w") simp
  have 5: "client (fst (get_metadata e input w)) = client w"
    using get_metadata_world[of e input w] by (cases "get_metadata e input w") simp
  have 6: "client (fst (save_all_formats e input b mt kw w)) = client w"
    using save_all_formats_world[of e input b mt kw w]
    by (cases "save_all_formats e input b mt kw w") simp
  have 7: "BharatViz_init (url @ ''/'') = BharatViz_init url"
    by (simp add: BharatViz_init_def Let_def rstrip_slash_append_slash)
  show ?thesis
    using 1 2 3 4 5 6 7 rstrip_slash_decomp[of url] rstrip_slash_no_trailing[of url]
    by (simp add: BharatViz_init_def Let_def)
qed

text \<open>
  Claim C8. A states call issues at most one request, to the states endpoint with a
  timeout of 30 seconds, and exactly one when the input passes validation; a districts call
  likewise, to the districts endpoint with 60 seconds; and 30 is less than 60.
\<close>

theorem request_timeouts:
  "(http_log (fst (generate_map e input opts w)) = http_log w
     \<or> (\<exists>body. http_log (fst (generate_map e input opts w)) = http_log w
           @ [\<lparr>call_endpoint = states_endpoint (client w), call_json = body,
               call_timeout = 30\<rparr>]))
   \<and> (normalize_data e states_required states_names input = Inr data
        \<and> validate_common data (color_scale opts) = Inr ()
      \<longrightarrow> http_log (fst (generate_map e input opts w)) = http_log w
           @ [\<lparr>call_endpoint = states_endpoint (client w),
               call_json = states_request_body data opts, call_timeout = 30\<rparr>])
   \<and> (http_log (fst (generate_districts_map e input dopts w)) = http_log w
     \<or> (\<exists>body. http_log (fst (generate_districts_map e input dopts w)) = http_log w
           @ [\<lparr>call_endpoint = districts_endpoint (client w), call_json = body,
               call_timeout = 60\<rparr>]))
   \<and> (normalize_data e districts_required districts_names input = Inr ddata
        \<and> validate_common ddata (color_scale dopts) = Inr ()
        \<and> validate_map_type (map_type dopts) = Inr ()
      \<longrightarrow> http_log (fst (generate_districts_map e input dopts w)) = http_log w
           @ [\<lparr>call_endpoint = districts_endpoint (client w),
               call_json = districts_request_body ddata dopts, call_timeout = 60\<rparr>])
   \<and> (30::nat) < 60"
proof -
  have 1: "http_log (fst (generate_map e input opts w)) = http_log w
     \<or> (\<exists>body. http_log (fst (generate_map e input opts w)) = http_log w
           @ [\<lparr>call_endpoint = states_endpoint (client w), call_json = body,
               call_timeout = 30\<rparr>])"
    using generate_map_world[of e input opts w]
    by (cases "generate_map e input opts w") simp
  have 2: "http_log (fst (generate_districts_map e input dopts w)) = http_log w
     \<or> (\<exists>body. http_log (fst (generate_districts_map e input dopts w)) = http_log w
           @ [\<lparr>call_endpoint = districts_endpoint (client w), call_json = body,
               call_timeout = 60\<rparr>])"
    using generate_districts_map_world[of e input dopts w]
    by (cases "generate_districts_map e input dopts w") simp
  show ?thesis
    using 1 2 generate_map_request[of e input data opts w]
      generate_districts_map_request[of e input ddata dopts w]
    by simp
qed

text \<open>
  Claim C8, at a one-row input with the default options.
\<close>

theorem request_timeouts_witness:
  "http_log (fst (generate_map (env_with (ok_response (PDict [(''success'', PBool False)])))
       (RowList [[(''state'', PStr ''Goa''), (''value'', PInt 1)]]) default_states_opts world0))
   = [\<lparr>call_endpoint = ''http://bharatviz.saketlab.in/api/v1/states/map'',
       call_json = states_request_body [[(''state'', PStr ''Goa''), (''value'', PInt 1)]] default_states_opts,
       call_timeout = 30\<rparr>]
   \<and> http_log (fst (generate_districts_map (env_with (ok_response (PDict [(''success'', PBool False)])))
       (RowList [[(''state'', PStr ''Goa''), (''district'', PStr ''North Goa''), (''value'', PInt 1)]])
       default_districts_opts world0))
   = [\<lparr>call_endpoint = ''http://bharatviz.saketlab.in/api/v1/districts/map'',
       call_json = districts_request_body
          [[(''state'', PStr ''Goa''), (''district'', PStr ''North Goa''), (''value'', PInt 1)]]
          default_districts_opts,
       call_timeout = 60\<rparr>]"
  using request_timeouts[where e = "env_with (ok_response (PDict [(''success'', PBool False)]))"
      and input = "RowList [[(''state'', PStr ''Goa''), (''value'', PInt 1)]]"
      and opts = default_states_opts and w = world0
      and data = "[[(''state'', PStr ''Goa''), (''value'', PInt 1)]]"]
     request_timeouts[where e = "env_with (ok_response (PDict [(''success'', PBool False)]))"
      and input = "RowList [[(''state'', PStr ''Goa''), (''district'', PStr ''North Goa''), (''value'', PInt 1)]]"
      and dopts = default_districts_opts and w = world0
      and ddata = "[[(''state'', PStr ''Goa''), (''district'', PStr ''North Goa''), (''value'', PInt 1)]]"]
  by (simp add: normalize_data_def validate_common_def validate_map_type_def valid_map_types_def
       default_states_opts_def default_districts_opts_def COLOR_SCALES_def world0_def
       BharatViz_init_def Let_def rstrip_slash_def)

text \<open>
  Claim C3. When the normalized records are empty or the colour scale is not one of the
  16 of \<open>COLOR_SCALES\<close>, and for districts also when the map type is not \<^verbatim>\<open>LGD\<close>,
  \<^verbatim>\<open>NFHS5\<close> or \<^verbatim>\<open>NFHS4\<close>, the call raises \<open>BharatVizError\<close> and leaves the world
  as it was: no request has been issued.
\<close>

theorem validation_rejects_before_request:
  "(normalize_data e states_required states_names input = Inr data
      \<and> (data = [] \<or> color_scale opts \<notin> set COLOR_SCALES)
    \<longrightarrow> (\<exists>m. generate_map e input opts w = (w, Inl (BharatVizError m))))
   \<and> (normalize_data e districts_required districts_names input = Inr ddata
      \<and> (ddata = [] \<or> color_scale dopts \<notin> set COLOR_SCALES
           \<or> map_type dopts \<notin> set valid_map_types)
    \<longrightarrow> (\<exists>m. generate_districts_map e input dopts w = (w, Inl (BharatVizError m))))
   \<and> length COLOR_SCALES = 16 \<and> distinct COLOR_SCALES
   \<and> valid_map_types = [''LGD'', ''NFHS5'', ''NFHS4'']"
proof -
  have 1: "normalize_data e states_required states_names input = Inr data
      \<and> (data = [] \<or> color_scale opts \<notin> set COLOR_SCALES)
    \<longrightarrow> (\<exists>m. generate_map e input opts w = (w, Inl (BharatVizError m)))"
    by (auto simp add: generate_map_def validate_common_def)
  have 2: "normalize_data e districts_required districts_names input = Inr ddata
      \<and> (ddata = [] \<or> color_scale dopts \<notin> set COLOR_SCALES
           \<or> map_type dopts \<notin> set valid_map_types)
    \<longrightarrow> (\<exists>m. generate_districts_map e input dopts w = (w, Inl (BharatVizError m)))"
    by (auto simp add: generate_districts_map_def validate_common_def validate_map_type_def)
  have 3: "length COLOR_SCALES = 16" by (simp add: COLOR_SCALES_def)
  have 4: "distinct COLOR_SCALES" by (simp add: COLOR_SCALES_def)
  show ?thesis using 1 2 3 4 by (simp add: valid_map_types_def)
qed

text \<open>
  Claim C3, at an empty list of rows and at a map type in the wrong case.
\<close>

theorem validation_rejects_before_request_witness:
  "(\<exists>m. generate_map (env_with (ok_response PNone)) (RowList []) default_states_opts world0
         = (world0, Inl (BharatVizError m)))
   \<and> (\<exists>m. generate_districts_map (env_with (ok_response PNone))
           (RowList [[(''state'', PStr ''Goa''), (''district'', PStr ''North Goa''),
                      (''value'', PInt 1)]])
           (default_districts_opts\<lparr>map_type := ''lgd''\<rparr>) world0
         = (world0, Inl (BharatVizError m)))"
proof -
  have a: "normalize_data (env_with (ok_response PNone)) states_required states_names
             (RowList []) = Inr []"
    by (simp add: normalize_data_def)
  have b: "normalize_data (env_with (ok_response PNone)) districts_required districts_names
             (RowList [[(''state'', PStr ''Goa''), (''district'', PStr ''North Goa''),
                      (''value'', PInt 1)]])
           = Inr [[(''state'', PStr ''Goa''), (''district'', PStr ''North Goa''),
                      (''value'', PInt 1)]]"
    by (simp add: normalize_data_def)
  have c: "map_type (default_districts_opts\<lparr>map_type := ''lgd''\<rparr>) \<notin> set valid_map_types"
    by (simp add: valid_map_types_def)
  from a b c
    validation_rejects_before_request[where e = "env_with (ok_response PNone)"
      and input = "RowList []" and data = "[]" and opts = default_states_opts and w = world0]
    validation_rejects_before_request[where e = "env_with (ok_response PNone)"
      and input = "RowList [[(''state'', PStr ''Goa''), (''district'', PStr ''North Goa''),
                      (''value'', PInt 1)]]"
      and ddata = "[[(''state'', PStr ''Goa''), (''district'', PStr ''North Goa''),
                      (''value'', PInt 1)]]"
      and dopts = "default_districts_opts\<lparr>map_type := ''lgd''\<rparr>" and w = world0]
  show ?thesis by blast
qed

section \<open>Decoding the response: properties\<close>

lemma generate_map_decode:
  assumes "normalize_data e states_required states_names input = Inr data"
    and "validate_common data (color_scale opts) = Inr ()"
    and "api_request e (states_endpoint (client w)) (states_request_body data opts) 30 w
           = (w1, Inr result)"
  shows "generate_map e input opts w = decode_response e result opts w1"
  using assms by (simp add: generate_map_def)

lemma generate_districts_map_decode:
  assumes "normalize_data e districts_required districts_names input = Inr data"
    and "validate_common data (color_scale opts) = Inr ()"
    and "validate_map_type (map_type opts) = Inr ()"
    and "api_request e (districts_endpoint (client w)) (districts_request_body data opts) 60 w
           = (w1, Inr result)"
  shows "generate_districts_map e input opts w = decode_response e result opts w1"
  using assms by (simp add: generate_districts_map_def)

lemma check_success_error:
  assumes "\<not> py_truthy (case map_of d ''success'' of Some v \<Rightarrow> v | None \<Rightarrow> PNone)"
    and "map_of d ''error'' = Some (PDict er)"
    and "map_of er ''message'' = Some (PStr m)"
  shows "check_success e (PDict d) = Inl (BharatVizError (''API error: '' @ m))"
  using assms by (simp add: check_success_def py_format_def)

lemma check_success_ok:
  assumes "py_truthy (case map_of d ''success'' of Some v \<Rightarrow> v | None \<Rightarrow> PNone)"
  shows "check_success e (PDict d) = Inr ()"
  using assms by (simp add: check_success_def)

lemma find_png_none:
  "list_all (\<lambda>x. case py_getitem x ''format'' of Inl err \<Rightarrow> False | Inr f \<Rightarrow> f \<noteq> PStr ''png'') es
   \<Longrightarrow> find_png es = Inr None"
  by (induction es) (auto split: sum.splits)

lemma find_png_first:
  "list_all (\<lambda>x. case py_getitem x ''format'' of Inl err \<Rightarrow> False | Inr f \<Rightarrow> f \<noteq> PStr ''png'') pre
   \<Longrightarrow> py_getitem x ''format'' = Inr (PStr ''png'')
   \<Longrightarrow> find_png (pre @ x # post) = Inr (Some x)"
  by (induction pre) (auto split: sum.splits)

lemma py_getitem_truthy: "py_getitem x k = Inr v \<Longrightarrow> py_truthy x"
  by (cases x) (auto split: option.splits)

lemma py_getitem_dict: "py_getitem (PDict d) k = Inr v \<longleftrightarrow> map_of d k = Some v"
  by (auto split: option.splits)

lemma decode_response_error:
  assumes "\<not> py_truthy (case map_of d ''success'' of Some v \<Rightarrow> v | None \<Rightarrow> PNone)"
    and "map_of d ''error'' = Some (PDict er)"
    and "map_of er ''message'' = Some (PStr m)"
  shows "decode_response e (PDict d) opts w = (w, Inl (BharatVizError (''API error: '' @ m)))"
  using check_success_error[OF assms] by (simp add: decode_response_def)

text \<open>
  Claim C6. When the parsed body is a dict whose \<^verbatim>\<open>success\<close> is false (or absent, or
  any other falsy value) and whose \<^verbatim>\<open>error\<close> is a dict with a string \<^verbatim>\<open>message\<close>, decoding
  fails with \<open>BharatVizError\<close> and the text \<^verbatim>\<open>API error: \<close> followed by that message, which
  therefore contains the message verbatim; so do \<^verbatim>\<open>generate_map\<close> and
  \<^verbatim>\<open>generate_districts_map\<close> when the transport hands them this body.
\<close>

theorem server_error_message_propagates:
  assumes "\<not> py_truthy (case map_of d ''success'' of Some v \<Rightarrow> v | None \<Rightarrow> PNone)"
    and "map_of d ''error'' = Some (PDict er)"
    and "map_of er ''message'' = Some (PStr m)"
  shows "decode_response e (PDict d) opts w = (w, Inl (BharatVizError (''API error: '' @ m)))
    \<and> sublist m (''API error: '' @ m)
    \<and> (normalize_data e states_required states_names input = Inr data
         \<and> validate_common data (color_scale sopts) = Inr ()
         \<and> api_request e (states_endpoint (client w)) (states_request_body data sopts) 30 w
             = (w1, Inr (PDict d))
       \<longrightarrow> generate_map e input sopts w = (w1, Inl (BharatVizError (''API error: '' @ m))))
    \<and> (normalize_data e districts_required districts_names input = Inr ddata
         \<and> validate_common ddata (color_scale dopts) = Inr ()
         \<and> validate_map_type (map_type dopts) = Inr ()
         \<and> api_request e (districts_endpoint (client w)) (districts_request_body ddata dopts) 60 w
             = (w1, Inr (PDict d))
       \<longrightarrow> generate_districts_map e input dopts w
             = (w1, Inl (BharatVizError (''API error: '' @ m))))"
proof -
  note dec = decode_response_error[OF assms]
  have 1: "sublist m (''API error: '' @ m)" by (rule sublist_append_leftI)
  have 2: "normalize_data e states_required states_names input = Inr data
         \<and> validate_common data (color_scale sopts) = Inr ()
         \<and> api_request e (states_endpoint (client w)) (states_request_body data sopts) 30 w
             = (w1, Inr (PDict d))
       \<longrightarrow> generate_map e input sopts w = (w1, Inl (BharatVizError (''API error: '' @ m)))"
    using generate_map_decode[of e input data sopts w w1 "PDict d"] dec[of e sopts w1]
    by simp
  have 3: "normalize_data e districts_required districts_names input = Inr ddata
         \<and> validate_common ddata (color_scale dopts) = Inr ()
         \<and> validate_map_type (map_type dopts) = Inr ()
         \<and> api_request e (districts_endpoint (client w)) (districts_request_body ddata dopts) 60 w
             = (w1, Inr (PDict d))
       \<longrightarrow> generate_districts_map e input dopts w
             = (w1, Inl (BharatVizError (''API error: '' @ m)))"
    using generate_districts_map_decode[of e input ddata dopts w w1 "PDict d"] dec[of e dopts w1]
    by simp
  from dec[of e opts w] 1 2 3 show ?thesis by blast
qed


lemma api_request_env_with:
  "api_request (env_with (ok_response v)) ep body t w
   = (w\<lparr>http_log := http_log w @ [\<lparr>call_endpoint = ep, call_json = body, call_timeout = t\<rparr>]\<rparr>,
      Inr v)"
  by (simp add: api_request_def env_with_def ok_response_def Let_def)

lemma normalize_data_rows: "normalize_data e required names (RowList rows) = Inr rows"
  by (simp add: normalize_data_def)

lemma validate_common_spectral: "rows \<noteq> [] \<Longrightarrow> validate_common rows ''spectral'' = Inr ()"
  by (simp add: validate_common_def COLOR_SCALES_def)

lemma validate_map_type_LGD: "validate_map_type ''LGD'' = Inr ()"
  by (simp add: validate_map_type_def valid_map_types_def)

text \<open>
  Claim C6, at the response \<^verbatim>\<open>{success: false, error: {message: "bad state name"}}\<close>.
\<close>

theorem server_error_message_propagates_witness:
  "generate_map
     (env_with (ok_response (PDict [(''success'', PBool False),
         (''error'', PDict [(''message'', PStr ''bad state name'')])])))
     (RowList [[(''state'', PStr ''Goa''), (''value'', PInt 1)]]) default_states_opts world0
   = (world0\<lparr>http_log :=
         [\<lparr>call_endpoint = states_endpoint (client world0),
            call_json = states_request_body [[(''state'', PStr ''Goa''), (''value'', PInt 1)]]
                          default_states_opts,
            call_timeout = 30\<rparr>]\<rparr>,
      Inl (BharatVizError ''API error: bad state name''))
   \<and> sublist ''bad state name'' ''API error: bad state name''"
proof -
  let ?d = "[(''success'', PBool False),
         (''error'', PDict [(''message'', PStr ''bad state name'')])]"
  let ?rows = "[[(''state'', PStr ''Goa''), (''value'', PInt 1)]]"
  let ?e = "env_with (ok_response (PDict ?d))"
  let ?w1 = "world0\<lparr>http_log :=
         [\<lparr>call_endpoint = states_endpoint (client world0),
            call_json = states_request_body ?rows default_states_opts,
            call_timeout = 30\<rparr>]\<rparr>"
  have a: "\<not> py_truthy (case map_of ?d ''success'' of Some v \<Rightarrow> v | None \<Rightarrow> PNone)"
    by simp
  have b: "map_of ?d ''error'' = Some (PDict [(''message'', PStr ''bad state name'')])"
    by simp
  have c: "map_of [(''message'', PStr ''bad state name'')] ''message''
           = Some (PStr ''bad state name'')"
    by simp
  have n: "normalize_data ?e states_required states_names (RowList ?rows) = Inr ?rows"
    by (rule normalize_data_rows)
  have v: "validate_common ?rows (color_scale default_states_opts) = Inr ()"
    by (simp add: default_states_opts_def validate_common_spectral)
  have r: "api_request ?e (states_endpoint (client world0))
             (states_request_body ?rows default_states_opts) 30 world0 = (?w1, Inr (PDict ?d))"
    by (simp add: api_request_env_with world0_def)
  have s: "sublist ''bad state name'' ''API error: bad state name''"
    using sublist_append_leftI[of "''bad state name''" "''API error: ''"] by simp
  from server_error_message_propagates[OF a b c, where e = ?e and input = "RowList ?rows"
      and data = ?rows and sopts = default_states_opts and w = world0 and ?w1.0 = ?w1
      and opts = default_states_opts and dopts = default_districts_opts and ddata = "[]"]
  have "normalize_data ?e states_required states_names (RowList ?rows) = Inr ?rows
         \<and> validate_common ?rows (color_scale default_states_opts) = Inr ()
         \<and> api_request ?e (states_endpoint (client world0))
             (states_request_body ?rows default_states_opts) 30 world0 = (?w1, Inr (PDict ?d))
       \<longrightarrow> generate_map ?e (RowList ?rows) default_states_opts world0
           = (?w1, Inl (BharatVizError (''API error: '' @ ''bad state name'')))"
    by (elim conjE)
  with n v r s show ?thesis by simp
qed


lemma decode_image_no_png:
  assumes "map_of d ''exports'' = Some (PList es)"
    and "list_all (\<lambda>x. case py_getitem x ''format'' of Inl err \<Rightarrow> False
                          | Inr f \<Rightarrow> f \<noteq> PStr ''png'') es"
  shows "decode_image e (PDict d) = Inl (BharatVizError ''PNG export not found in response'')"
  using assms(1) find_png_none[OF assms(2)] by (simp add: decode_image_def)

lemma decode_response_no_png:
  assumes "py_truthy (case map_of d ''success'' of Some v \<Rightarrow> v | None \<Rightarrow> PNone)"
    and "map_of d ''exports'' = Some (PList es)"
    and "list_all (\<lambda>x. case py_getitem x ''format'' of Inl err \<Rightarrow> False
                          | Inr f \<Rightarrow> f \<noteq> PStr ''png'') es"
  shows "decode_response e (PDict d) opts w
         = (w, Inl (BharatVizError ''PNG export not found in response''))"
  using check_success_ok[OF assms(1)] decode_image_no_png[OF assms(2,3)]
  by (simp add: decode_response_def)

text \<open>
  Claim C5. When the body reports success and its \<^verbatim>\<open>exports\<close> list has no entry whose
  format is \<^verbatim>\<open>"png"\<close>, decoding fails with \<open>BharatVizError\<close>
  \<^verbatim>\<open>PNG export not found in response\<close>, whatever the options (and so whatever formats
  were asked for); so do \<^verbatim>\<open>generate_map\<close>, \<^verbatim>\<open>generate_districts_map\<close> and
  \<^verbatim>\<open>get_metadata\<close>, which asks for SVG only.
\<close>

theorem missing_png_rejected:
  assumes "py_truthy (case map_of d ''success'' of Some v \<Rightarrow> v | None \<Rightarrow> PNone)"
    and "map_of d ''exports'' = Some (PList es)"
    and "list_all (\<lambda>x. case py_getitem x ''format'' of Inl err \<Rightarrow> False
                          | Inr f \<Rightarrow> f \<noteq> PStr ''png'') es"
  shows "decode_response e (PDict d) opts w
           = (w, Inl (BharatVizError ''PNG export not found in response''))
    \<and> (normalize_data e states_required states_names input = Inr data
         \<and> validate_common data (color_scale sopts) = Inr ()
         \<and> api_request e (states_endpoint (client w)) (states_request_body data sopts) 30 w
             = (w1, Inr (PDict d))
       \<longrightarrow> generate_map e input sopts w
             = (w1, Inl (BharatVizError ''PNG export not found in response'')))
    \<and> (normalize_data e districts_required districts_names input = Inr ddata
         \<and> validate_common ddata (color_scale dopts) = Inr ()
         \<and> validate_map_type (map_type dopts) = Inr ()
         \<and> api_request e (districts_endpoint (client w)) (districts_request_body ddata dopts) 60 w
             = (w1, Inr (PDict d))
       \<longrightarrow> generate_districts_map e input dopts w
             = (w1, Inl (BharatVizError ''PNG export not found in response'')))
    \<and> (normalize_data e states_required states_names input = Inr data
         \<and> data \<noteq> []
         \<and> api_request e (states_endpoint (client w))
               (states_request_body data
                  (default_states_opts\<lparr>formats := [''svg''], return_all := True\<rparr>)) 30 w
             = (w1, Inr (PDict d))
       \<longrightarrow> get_metadata e input w
             = (w1, Inl (BharatVizError ''PNG export not found in response'')))"
proof -
  note dec = decode_response_no_png[OF assms]
  have 2: "normalize_data e states_required states_names input = Inr data
         \<and> validate_common data (color_scale sopts) = Inr ()
         \<and> api_request e (states_endpoint (client w)) (states_request_body data sopts) 30 w
             = (w1, Inr (PDict d))
       \<longrightarrow> generate_map e input sopts w
             = (w1, Inl (BharatVizError ''PNG export not found in response''))"
    using generate_map_decode[of e input data sopts w w1 "PDict d"] dec[of e sopts w1]
    by simp
  have 3: "normalize_data e districts_required districts_names input = Inr ddata
         \<and> validate_common ddata (color_scale dopts) = Inr ()
         \<and> validate_map_type (map_type dopts) = Inr ()
         \<and> api_request e (districts_endpoint (client w)) (districts_request_body ddata dopts) 60 w
             = (w1, Inr (PDict d))
       \<longrightarrow> generate_districts_map e input dopts w
             = (w1, Inl (BharatVizError ''PNG export not found in response''))"
    using generate_districts_map_decode[of e input ddata dopts w w1 "PDict d"] dec[of e dopts w1]
    by simp
  let ?mo = "default_states_opts\<lparr>formats := [''svg''], return_all := True\<rparr>"
  have cs: "color_scale ?mo = ''spectral''" by (simp add: default_states_opts_def)
  have 4: "normalize_data e states_required states_names input = Inr data
         \<and> data \<noteq> []
         \<and> api_request e (states_endpoint (client w)) (states_request_body data ?mo) 30 w
             = (w1, Inr (PDict d))
       \<longrightarrow> get_metadata e input w
             = (w1, Inl (BharatVizError ''PNG export not found in response''))"
  proof (intro impI, elim conjE)
    assume n: "normalize_data e states_required states_names input = Inr data"
      and ne: "data \<noteq> []"
      and r: "api_request e (states_endpoint (client w)) (states_request_body data ?mo) 30 w
             = (w1, Inr (PDict d))"
    have v: "validate_common data (color_scale ?mo) = Inr ()"
      using ne cs validate_common_spectral by simp
    have "generate_map e input ?mo w
            = (w1, Inl (BharatVizError ''PNG export not found in response''))"
      using generate_map_decode[OF n v r] dec[of e ?mo w1] by simp
    then show "get_metadata e input w
             = (w1, Inl (BharatVizError ''PNG export not found in response''))"
      by (simp add: get_metadata_def)
  qed
  from dec[of e opts w] 2 3 4 show ?thesis by blast
qed

text \<open>
  Claim C5, at a response whose only export is an SVG, for \<^verbatim>\<open>get_metadata\<close>.
\<close>

theorem missing_png_rejected_witness:
  "get_metadata
     (env_with (ok_response (PDict [(''success'', PBool True),
         (''exports'', PList [PDict [(''format'', PStr ''svg''), (''data'', PStr ''PHN2Zy8+'')]]),
         (''metadata'', PDict [])])))
     (RowList [[(''state'', PStr ''Goa''), (''value'', PInt 1)]]) world0
   = (world0\<lparr>http_log :=
         [\<lparr>call_endpoint = states_endpoint (client world0),
            call_json = states_request_body [[(''state'', PStr ''Goa''), (''value'', PInt 1)]]
                          (default_states_opts\<lparr>formats := [''svg''], return_all := True\<rparr>),
            call_timeout = 30\<rparr>]\<rparr>,
      Inl (BharatVizError ''PNG export not found in response''))"
proof -
  let ?es = "[PDict [(''format'', PStr ''svg''), (''data'', PStr ''PHN2Zy8+'')]]"
  let ?d = "[(''success'', PBool True), (''exports'', PList ?es), (''metadata'', PDict [])]"
  let ?rows = "[[(''state'', PStr ''Goa''), (''value'', PInt 1)]]"
  let ?e = "env_with (ok_response (PDict ?d))"
  let ?mo = "default_states_opts\<lparr>formats := [''svg''], return_all := True\<rparr>"
  let ?w1 = "world0\<lparr>http_log :=
         [\<lparr>call_endpoint = states_endpoint (client world0),
            call_json = states_request_body ?rows ?mo, call_timeout = 30\<rparr>]\<rparr>"
  have a: "py_truthy (case map_of ?d ''success'' of Some v \<Rightarrow> v | None \<Rightarrow> PNone)"
    by simp
  have b: "map_of ?d ''exports'' = Some (PList ?es)"
    by simp
  have c: "list_all (\<lambda>x. case py_getitem x ''format'' of Inl err \<Rightarrow> False
                          | Inr f \<Rightarrow> f \<noteq> PStr ''png'') ?es"
    by simp
  have n: "normalize_data ?e states_required states_names (RowList ?rows) = Inr ?rows"
    by (rule normalize_data_rows)
  have r: "api_request ?e (states_endpoint (client world0))
             (states_request_body ?rows ?mo) 30 world0 = (?w1, Inr (PDict ?d))"
    by (simp add: api_request_env_with world0_def)
  from missing_png_rejected[OF a b c, where e = ?e and input = "RowList ?rows"
      and data = ?rows and sopts = default_states_opts and w = world0 and ?w1.0 = ?w1
      and opts = default_states_opts and dopts = default_districts_opts and ddata = "[]"]
  have "normalize_data ?e states_required states_names (RowList ?rows) = Inr ?rows
         \<and> ?rows \<noteq> []
         \<and> api_request ?e (states_endpoint (client world0))
             (states_request_body ?rows ?mo) 30 world0 = (?w1, Inr (PDict ?d))
       \<longrightarrow> get_metadata ?e (RowList ?rows) world0
           = (?w1, Inl (BharatVizError ''PNG export not found in response''))"
    by (elim conjE)
  with n r show ?thesis by simp
qed


lemma present_saved:
  "present e result img opts w = (w1, Inr (RetAll img' ex md)) \<Longrightarrow>
   img' = img \<and> files w1 = files w @ saved_file (save_path opts) img"
  by (auto simp add: present_def split: sum.splits prod.splits if_splits
       dest!: save_image_world display_image_world)

lemma decode_response_saved:
  "decode_response e result opts w = (w1, Inr (RetAll img ex md)) \<Longrightarrow>
   files w1 = files w @ saved_file (save_path opts) img"
  by (auto simp add: decode_response_def split: sum.splits dest!: present_saved)

lemma generate_map_saved:
  "generate_map e input opts w = (w1, Inr (RetAll img ex md)) \<Longrightarrow>
   files w1 = files w @ saved_file (save_path opts) img"
  by (auto simp add: generate_map_def split: sum.splits prod.splits
       dest!: api_request_world decode_response_saved)

lemma generate_districts_map_saved:
  "generate_districts_map e input opts w = (w1, Inr (RetAll img ex md)) \<Longrightarrow>
   files w1 = files w @ saved_file (save_path opts) img"
  by (auto simp add: generate_districts_map_def split: sum.splits prod.splits
       dest!: api_request_world decode_response_saved)

lemma map_call_saved:
  "map_call e input mt kw w = (w1, Inr (RetAll img ex md)) \<Longrightarrow>
   files w1 = files w @ saved_file (kw_save_path kw) img"
  by (auto simp add: map_call_def states_kwargs_def districts_kwargs_def
       split: sum.splits if_splits dest!: generate_map_saved generate_districts_map_saved)

text \<open>
  Claim C4. When the body reports success, the first export whose format is \<^verbatim>\<open>"png"\<close>
  carries a payload that base64-decodes to the bytes \<open>bs\<close>, PIL is present and opens
  these bytes, saving the image to a requested \<^verbatim>\<open>save_path\<close> does not raise, and
  displaying a requested image does not raise (matplotlib is present and its calls return),
  the decoded image is the one backed by exactly \<open>bs\<close>; with \<^verbatim>\<open>return_all\<close> the result
  holds this image, the \<^verbatim>\<open>exports\<close> list of the body unchanged and the \<^verbatim>\<open>metadata\<close>
  of the body unchanged; and the only file written is this image at \<^verbatim>\<open>save_path\<close>.
\<close>

theorem png_roundtrip:
  assumes "py_truthy (case map_of d ''success'' of Some v \<Rightarrow> v | None \<Rightarrow> PNone)"
    and "map_of d ''exports'' = Some (PList (pre @ x # post))"
    and "list_all (\<lambda>y. case py_getitem y ''format'' of Inl err \<Rightarrow> False
                          | Inr f \<Rightarrow> f \<noteq> PStr ''png'') pre"
    and "py_getitem x ''format'' = Inr (PStr ''png'')"
    and "py_getitem x ''data'' = Inr (PStr s)"
    and "b64decode e s = Inr bs"
    and "PIL_AVAILABLE e"
    and "pil_identifies e bs"
    and "case save_path opts of None \<Rightarrow> True
         | Some p \<Rightarrow> p = [] \<or> image_save e (Image bs) p = None"
    and "show_map opts \<longrightarrow>
           MPL_AVAILABLE e \<and> mpl_show e (Image bs) (title opts) (figsize opts) = None"
    and "return_all opts \<longrightarrow> map_of d ''metadata'' = Some md"
  shows "decode_image e (PDict d) = Inr (Image bs)
    \<and> snd (decode_response e (PDict d) opts w)
        = Inr (if return_all opts then RetAll (Image bs) (PList (pre @ x # post)) md
               else RetImage (Image bs))
    \<and> files (fst (decode_response e (PDict d) opts w))
        = files w @ saved_file (save_path opts) (Image bs)"
proof -
  have f: "find_png (pre @ x # post) = Inr (Some x)"
    using assms(3,4) by (rule find_png_first)
  have t: "py_truthy x" using assms(4) by (rule py_getitem_truthy)
  have img: "decode_image e (PDict d) = Inr (Image bs)"
    using assms(2,5,6,7,8) f t
    by (simp add: decode_image_def py_b64decode_def Image_open_def)
  let ?w1 = "w\<lparr>files := files w @ saved_file (save_path opts) (Image bs)\<rparr>"
  have sv: "save_image e (Image bs) (save_path opts) w = (?w1, Inr ())"
    using assms(9) by (auto simp add: save_image_def saved_file_def split: option.splits)
  obtain w2 where ds: "display_image e (Image bs) opts ?w1 = (w2, Inr ())"
    and fw: "files w2 = files ?w1"
    using assms(10) by (cases "show_map opts") (simp_all add: display_image_def)
  have "present e (PDict d) (Image bs) opts w
        = (w2, Inr (if return_all opts then RetAll (Image bs) (PList (pre @ x # post)) md
               else RetImage (Image bs)))"
    using assms(2,11) sv ds by (simp add: present_def)
  with img fw check_success_ok[OF assms(1), of e] show ?thesis
    by (simp add: decode_response_def)
qed

text \<open>
  Claim C4, at a response with an SVG and a PNG export, the PNG payload \<^verbatim>\<open>aGk=\<close>
  decoding to the two bytes \<^verbatim>\<open>hi\<close>, with the image saved to \<^verbatim>\<open>map.png\<close> and shown.
\<close>

theorem png_roundtrip_witness:
  "snd (decode_response
     (env_with (ok_response PNone))
     (PDict [(''success'', PBool True),
             (''exports'', PList [PDict [(''format'', PStr ''svg''), (''data'', PStr ''PHN2Zy8+'')],
                                  PDict [(''format'', PStr ''png''), (''data'', PStr ''aGk='')]]),
             (''metadata'', PDict [(''min'', PInt 1)])])
     (default_states_opts\<lparr>show_map := True, save_path := Some ''map.png'', return_all := True\<rparr>)
     world0)
   = Inr (RetAll (Image ''hi'')
            (PList [PDict [(''format'', PStr ''svg''), (''data'', PStr ''PHN2Zy8+'')],
                    PDict [(''format'', PStr ''png''), (''data'', PStr ''aGk='')]])
            (PDict [(''min'', PInt 1)]))
   \<and> files (fst (decode_response
     (env_with (ok_response PNone))
     (PDict [(''success'', PBool True),
             (''exports'', PList [PDict [(''format'', PStr ''svg''), (''data'', PStr ''PHN2Zy8+'')],
                                  PDict [(''format'', PStr ''png''), (''data'', PStr ''aGk='')]]),
             (''metadata'', PDict [(''min'', PInt 1)])])
     (default_states_opts\<lparr>show_map := True, save_path := Some ''map.png'', return_all := True\<rparr>)
     world0))
   = [(''map.png'', EncodedImage (Image ''hi''))]"
proof -
  let ?svg = "PDict [(''format'', PStr ''svg''), (''data'', PStr ''PHN2Zy8+'')]"
  let ?png = "PDict [(''format'', PStr ''png''), (''data'', PStr ''aGk='')]"
  let ?md = "PDict [(''min'', PInt 1)]"
  let ?d = "[(''success'', PBool True), (''exports'', PList ([?svg] @ ?png # [])),
             (''metadata'', ?md)]"
  let ?e = "env_with (ok_response PNone)"
  let ?o = "default_states_opts\<lparr>show_map := True, save_path := Some ''map.png'',
              return_all := True\<rparr>"
  have a: "py_truthy (case map_of ?d ''success'' of Some v \<Rightarrow> v | None \<Rightarrow> PNone)"
    by simp
  have b: "map_of ?d ''exports'' = Some (PList ([?svg] @ ?png # []))" by simp
  have c: "list_all (\<lambda>y. case py_getitem y ''format'' of Inl err \<Rightarrow> False
                          | Inr f \<Rightarrow> f \<noteq> PStr ''png'') [?svg]" by simp
  have f: "py_getitem ?png ''format'' = Inr (PStr ''png'')" by simp
  have g: "py_getitem ?png ''data'' = Inr (PStr ''aGk='')" by simp
  have "b64_strict ''aGk='' = Inr ''hi''" by code_simp
  then have h: "b64decode ?e ''aGk='' = Inr ''hi''" by (simp add: env_with_def)
  have i: "PIL_AVAILABLE ?e" by (simp add: env_with_def)
  have j: "pil_identifies ?e ''hi''" by (simp add: env_with_def)
  have sp: "case save_path ?o of None \<Rightarrow> True
            | Some p \<Rightarrow> p = [] \<or> image_save ?e (Image ''hi'') p = None"
    by (simp add: env_with_def)
  have k: "show_map ?o \<longrightarrow>
             MPL_AVAILABLE ?e \<and> mpl_show ?e (Image ''hi'') (title ?o) (figsize ?o) = None"
    by (simp add: env_with_def)
  have l: "return_all ?o \<longrightarrow> map_of ?d ''metadata'' = Some ?md" by simp
  have fw: "files world0 = []" by (simp add: world0_def)
  have sf: "saved_file (save_path ?o) (Image ''hi'') = [(''map.png'', EncodedImage (Image ''hi''))]"
    by (simp add: saved_file_def)
  have ra: "return_all ?o" by simp
  from png_roundtrip[OF a b c f g h i j sp k l, of world0]
  show ?thesis unfolding fw sf using ra by simp
qed

text \<open>
  Claim C7. The response \<^verbatim>\<open>{success: true}\<close>, with no \<^verbatim>\<open>exports\<close> field, makes
  \<^verbatim>\<open>generate_map\<close> raise \<^verbatim>\<open>KeyError\<close>, which is not a \<open>BharatVizError\<close>:
  line 229 reads \<^verbatim>\<open>result["exports"]\<close> where lines 224-225 use \<^verbatim>\<open>get\<close>.
\<close>

theorem missing_exports_raises_KeyError:
  "snd (generate_map (env_with (ok_response (PDict [(''success'', PBool True)])))
          (RowList [[(''state'', PStr ''Goa''), (''value'', PInt 1)]])
          default_states_opts world0)
   = Inl (KeyError ''exports'')"
proof -
  let ?rows = "[[(''state'', PStr ''Goa''), (''value'', PInt 1)]]"
  let ?e = "env_with (ok_response (PDict [(''success'', PBool True)]))"
  have n: "normalize_data ?e states_required states_names (RowList ?rows) = Inr ?rows"
    by (rule normalize_data_rows)
  have v: "validate_common ?rows (color_scale default_states_opts) = Inr ()"
    by (simp add: default_states_opts_def validate_common_spectral)
  have d: "decode_response ?e (PDict [(''success'', PBool True)]) default_states_opts w
           = (w, Inl (KeyError ''exports''))" for w
    by (simp add: decode_response_def check_success_def decode_image_def)
  show ?thesis
    using generate_map_decode[OF n v api_request_env_with] d by simp
qed

section \<open>Saving all formats and the request body\<close>

lemma save_exports_one:
  assumes "py_getitem x ''format'' = Inr (PStr f)"
    and "py_getitem x ''data'' = Inr (PStr s)"
    and "b64decode e s = Inr bs"
    and "file_write e (basename @ CHR ''.'' # f) bs = None"
  shows "save_exports e basename (x # xs) w
         = save_exports e basename xs
             (w\<lparr>files := files w @ [(basename @ CHR ''.'' # f, RawBytes bs)]\<rparr>)"
  using assms by (simp add: py_format_def py_b64decode_def Let_def)

text \<open>
  Claim C9 as stated fails. With the keyword \<^verbatim>\<open>save_path="map.png"\<close> passed on to the
  map call (lines 516 and 520 forward \<^verbatim>\<open>**kwargs\<close>), a successful all-formats call with
  basename \<^verbatim>\<open>out\<close> writes four files, not exactly three: line 245 saves the image to
  \<^verbatim>\<open>map.png\<close> before the loop writes \<^verbatim>\<open>out.png\<close>, \<^verbatim>\<open>out.svg\<close> and \<^verbatim>\<open>out.pdf\<close>.
  And when the map call succeeds but \<^verbatim>\<open>out.svg\<close> cannot be written, line 527 raises
  \<^verbatim>\<open>OSError\<close> with only \<^verbatim>\<open>out.png\<close> written.
\<close>

theorem save_all_formats_fourth_file:
  "snd (save_all_formats
     (env_with (ok_response (PDict [(''success'', PBool True),
         (''exports'', PList [PDict [(''format'', PStr ''png''), (''data'', PStr ''aGk='')],
                              PDict [(''format'', PStr ''svg''), (''data'', PStr ''PHN2Zy8+'')],
                              PDict [(''format'', PStr ''pdf''), (''data'', PStr ''JVBERg=='')]]),
         (''metadata'', PDict [])])))
     (RowList [[(''state'', PStr ''Goa''), (''value'', PInt 1)]]) ''out'' ''states''
     (no_kwargs\<lparr>kw_save_path := Some ''map.png''\<rparr>) world0) = Inr ()
   \<and> files (fst (save_all_formats
     (env_with (ok_response (PDict [(''success'', PBool True),
         (''exports'', PList [PDict [(''format'', PStr ''png''), (''data'', PStr ''aGk='')],
                              PDict [(''format'', PStr ''svg''), (''data'', PStr ''PHN2Zy8+'')],
                              PDict [(''format'', PStr ''pdf''), (''data'', PStr ''JVBERg=='')]]),
         (''metadata'', PDict [])])))
     (RowList [[(''state'', PStr ''Goa''), (''value'', PInt 1)]]) ''out'' ''states''
     (no_kwargs\<lparr>kw_save_path := Some ''map.png''\<rparr>) world0))
     = [(''map.png'', EncodedImage (Image ''hi'')),
        (''out.png'', RawBytes ''hi''), (''out.svg'', RawBytes ''<svg/>''),
        (''out.pdf'', RawBytes ''%PDF'')]
   \<and> snd (save_all_formats
     (env_write_fails (ok_response (PDict [(''success'', PBool True),
         (''exports'', PList [PDict [(''format'', PStr ''png''), (''data'', PStr ''aGk='')],
                              PDict [(''format'', PStr ''svg''), (''data'', PStr ''PHN2Zy8+'')],
                              PDict [(''format'', PStr ''pdf''), (''data'', PStr ''JVBERg=='')]]),
         (''metadata'', PDict [])])) ''out.svg'')
     (RowList [[(''state'', PStr ''Goa''), (''value'', PInt 1)]]) ''out'' ''states''
     no_kwargs world0) = Inl OSError
   \<and> files (fst (save_all_formats
     (env_write_fails (ok_response (PDict [(''success'', PBool True),
         (''exports'', PList [PDict [(''format'', PStr ''png''), (''data'', PStr ''aGk='')],
                              PDict [(''format'', PStr ''svg''), (''data'', PStr ''PHN2Zy8+'')],
                              PDict [(''format'', PStr ''pdf''), (''data'', PStr ''JVBERg=='')]]),
         (''metadata'', PDict [])])) ''out.svg'')
     (RowList [[(''state'', PStr ''Goa''), (''value'', PInt 1)]]) ''out'' ''states''
     no_kwargs world0))
     = [(''out.png'', RawBytes ''hi'')]"
  by code_simp

text \<open>
  Claim C9, amended. When the map call of \<^verbatim>\<open>save_all_formats\<close> succeeds and returns the
  three exports \<^verbatim>\<open>png\<close>, \<^verbatim>\<open>svg\<close>, \<^verbatim>\<open>pdf\<close> whose payloads base64-decode to \<open>b1\<close>,
  \<open>b2\<close>, \<open>b3\<close>, and each of the files \<^verbatim>\<open>basename.png\<close>, \<^verbatim>\<open>basename.svg\<close>,
  \<^verbatim>\<open>basename.pdf\<close> can be opened and written, the call returns normally and the files it
  has written are, in this order: the image at \<^verbatim>\<open>save_path\<close> if that keyword was passed
  on and is not empty, then \<^verbatim>\<open>basename.png\<close>, \<^verbatim>\<open>basename.svg\<close> and \<^verbatim>\<open>basename.pdf\<close>,
  holding \<open>b1\<close>, \<open>b2\<close> and \<open>b3\<close>. So with no \<^verbatim>\<open>save_path\<close> passed on these three are
  exactly the files written.
\<close>

theorem save_all_formats_files:
  assumes "map_call e input mt kw w = (w1, Inr (RetAll img (PList [x1, x2, x3]) md))"
    and "py_getitem x1 ''format'' = Inr (PStr ''png'')"
    and "py_getitem x1 ''data'' = Inr (PStr s1)"
    and "b64decode e s1 = Inr b1"
    and "file_write e (basename @ ''.png'') b1 = None"
    and "py_getitem x2 ''format'' = Inr (PStr ''svg'')"
    and "py_getitem x2 ''data'' = Inr (PStr s2)"
    and "b64decode e s2 = Inr b2"
    and "file_write e (basename @ ''.svg'') b2 = None"
    and "py_getitem x3 ''format'' = Inr (PStr ''pdf'')"
    and "py_getitem x3 ''data'' = Inr (PStr s3)"
    and "b64decode e s3 = Inr b3"
    and "file_write e (basename @ ''.pdf'') b3 = None"
  shows "snd (save_all_formats e input basename mt kw w) = Inr ()
    \<and> files (fst (save_all_formats e input basename mt kw w))
        = files w @ saved_file (kw_save_path kw) img
          @ [(basename @ ''.png'', RawBytes b1),
             (basename @ ''.svg'', RawBytes b2),
             (basename @ ''.pdf'', RawBytes b3)]"
proof -
  have fw: "files w1 = files w @ saved_file (kw_save_path kw) img"
    using assms(1) by (rule map_call_saved)
  have "save_exports e basename [x1, x2, x3] w1
        = (w1\<lparr>files := files w1 @ [(basename @ ''.png'', RawBytes b1),
                     (basename @ ''.svg'', RawBytes b2),
                     (basename @ ''.pdf'', RawBytes b3)]\<rparr>, Inr ())"
    unfolding save_exports_one[OF assms(2,3,4,5)] save_exports_one[OF assms(6,7,8,9)]
          save_exports_one[OF assms(10,11,12,13)]
    by simp
  then show ?thesis
    using assms(1) fw by (simp add: save_all_formats_def)
qed

text \<open>
  Claim C9, amended, with the basename \<^verbatim>\<open>out\<close>, payloads of two, six and four bytes,
  and no keyword passed on: exactly \<^verbatim>\<open>out.png\<close>, \<^verbatim>\<open>out.svg\<close> and \<^verbatim>\<open>out.pdf\<close>.
\<close>

theorem save_all_formats_files_witness:
  "snd (save_all_formats
     (env_with (ok_response (PDict [(''success'', PBool True),
         (''exports'', PList [PDict [(''format'', PStr ''png''), (''data'', PStr ''aGk='')],
                              PDict [(''format'', PStr ''svg''), (''data'', PStr ''PHN2Zy8+'')],
                              PDict [(''format'', PStr ''pdf''), (''data'', PStr ''JVBERg=='')]]),
         (''metadata'', PDict [])])))
     (RowList [[(''state'', PStr ''Goa''), (''value'', PInt 1)]]) ''out'' ''states'' no_kwargs
     world0) = Inr ()
   \<and> files (fst (save_all_formats
     (env_with (ok_response (PDict [(''success'', PBool True),
         (''exports'', PList [PDict [(''format'', PStr ''png''), (''data'', PStr ''aGk='')],
                              PDict [(''format'', PStr ''svg''), (''data'', PStr ''PHN2Zy8+'')],
                              PDict [(''format'', PStr ''pdf''), (''data'', PStr ''JVBERg=='')]]),
         (''metadata'', PDict [])])))
     (RowList [[(''state'', PStr ''Goa''), (''value'', PInt 1)]]) ''out'' ''states'' no_kwargs
     world0))
     = [(''out.png'', RawBytes ''hi''), (''out.svg'', RawBytes ''<svg/>''),
        (''out.pdf'', RawBytes ''%PDF'')]"
proof -
  let ?x1 = "PDict [(''format'', PStr ''png''), (''data'', PStr ''aGk='')]"
  let ?x2 = "PDict [(''format'', PStr ''svg''), (''data'', PStr ''PHN2Zy8+'')]"
  let ?x3 = "PDict [(''format'', PStr ''pdf''), (''data'', PStr ''JVBERg=='')]"
  let ?e = "env_with (ok_response (PDict [(''success'', PBool True),
         (''exports'', PList [?x1, ?x2, ?x3]), (''metadata'', PDict [])]))"
  let ?rows = "[[(''state'', PStr ''Goa''), (''value'', PInt 1)]]"
  let ?w1 = "world0\<lparr>http_log :=
         [\<lparr>call_endpoint = ''http://bharatviz.saketlab.in/api/v1/states/map'',
            call_json = states_request_body ?rows
               (default_states_opts\<lparr>formats := [''png'', ''svg'', ''pdf''], return_all := True\<rparr>),
            call_timeout = 30\<rparr>]\<rparr>"
  have m: "map_call ?e (RowList ?rows) ''states'' no_kwargs world0
           = (?w1, Inr (RetAll (Image ''hi'') (PList [?x1, ?x2, ?x3]) (PDict [])))"
    by code_simp
  have "b64_strict ''aGk='' = Inr ''hi''" by code_simp
  then have d1: "b64decode ?e ''aGk='' = Inr ''hi''" by (simp add: env_with_def)
  have "b64_strict ''PHN2Zy8+'' = Inr ''<svg/>''" by code_simp
  then have d2: "b64decode ?e ''PHN2Zy8+'' = Inr ''<svg/>''" by (simp add: env_with_def)
  have "b64_strict ''JVBERg=='' = Inr ''%PDF''" by code_simp
  then have d3: "b64decode ?e ''JVBERg=='' = Inr ''%PDF''" by (simp add: env_with_def)
  have f1: "py_getitem ?x1 ''format'' = Inr (PStr ''png'')" by simp
  have g1: "py_getitem ?x1 ''data'' = Inr (PStr ''aGk='')" by simp
  have f2: "py_getitem ?x2 ''format'' = Inr (PStr ''svg'')" by simp
  have g2: "py_getitem ?x2 ''data'' = Inr (PStr ''PHN2Zy8+'')" by simp
  have f3: "py_getitem ?x3 ''format'' = Inr (PStr ''pdf'')" by simp
  have g3: "py_getitem ?x3 ''data'' = Inr (PStr ''JVBERg=='')" by simp
  have w1: "file_write ?e (''out'' @ ''.png'') ''hi'' = None" by (simp add: env_with_def)
  have w2: "file_write ?e (''out'' @ ''.svg'') ''<svg/>'' = None" by (simp add: env_with_def)
  have w3: "file_write ?e (''out'' @ ''.pdf'') ''%PDF'' = None" by (simp add: env_with_def)
  have fw: "files world0 = []" by (simp add: world0_def)
  have sf: "saved_file (kw_save_path no_kwargs) (Image ''hi'') = []"
    by (simp add: saved_file_def no_kwargs_def)
  from save_all_formats_files[OF m f1 g1 d1 w1 f2 g2 d2 w2 f3 g3 d3 w3] fw sf
  show ?thesis by simp
qed

text \<open>
  Claim C1 as stated fails: a row with a third key is sent as it is, so the records of
  the request body do not contain only \<^verbatim>\<open>state\<close> and \<^verbatim>\<open>value\<close>.
\<close>

theorem extra_keys_forwarded:
  "\<not> list_all (only_keys states_required)
       (request_data (call_json (last (http_log (fst
          (generate_map (env_with (ok_response PNone))
             (RowList [[(''state'', PStr ''Goa''), (''value'', PInt 1), (''note'', PStr ''x'')]])
             default_states_opts world0))))))"
proof -
  let ?rows = "[[(''state'', PStr ''Goa''), (''value'', PInt 1), (''note'', PStr ''x'')]]"
  let ?e = "env_with (ok_response PNone)"
  have n: "normalize_data ?e states_required states_names (RowList ?rows) = Inr ?rows"
    by (rule normalize_data_rows)
  have v: "validate_common ?rows (color_scale default_states_opts) = Inr ()"
    by (simp add: default_states_opts_def validate_common_spectral)
  have "\<not> list_all (only_keys states_required)
          (request_data (states_request_body ?rows default_states_opts))"
    by (simp add: states_request_body_def request_data_def only_keys_def states_required_def)
  then show ?thesis
    using generate_map_request[OF n v, of world0] by simp
qed

text \<open>
  Claim C1, amended. For a non-empty list of rows and a colour scale of the allow-list,
  \<^verbatim>\<open>generate_map\<close> issues one request whose body carries under \<^verbatim>\<open>data\<close> the rows
  themselves, unchanged: as many records as rows, each with the keys its row had, and so
  with the keys \<^verbatim>\<open>state\<close> and \<^verbatim>\<open>value\<close> only when the rows have only these.
\<close>

theorem row_input_request_body:
  assumes "rows \<noteq> []" and "color_scale opts \<in> set COLOR_SCALES"
  shows "http_log (fst (generate_map e (RowList rows) opts w))
           = http_log w @ [\<lparr>call_endpoint = states_endpoint (client w),
                            call_json = states_request_body rows opts, call_timeout = 30\<rparr>]
    \<and> request_data (states_request_body rows opts) = map PDict rows
    \<and> length (request_data (states_request_body rows opts)) = length rows
    \<and> (list_all (only_keys states_required) (map PDict rows)
        \<longrightarrow> list_all (only_keys states_required)
              (request_data (states_request_body rows opts)))"
proof -
  have n: "normalize_data e states_required states_names (RowList rows) = Inr rows"
    by (rule normalize_data_rows)
  have v: "validate_common rows (color_scale opts) = Inr ()"
    using assms by (simp add: validate_common_def)
  have d: "request_data (states_request_body rows opts) = map PDict rows"
    by (simp add: states_request_body_def request_data_def)
  show ?thesis
    using generate_map_request[OF n v, of w] d by simp
qed

text \<open>
  Claim C1, amended, at a one-row input.
\<close>

theorem row_input_request_body_witness:
  "http_log (fst (generate_map (env_with (ok_response PNone))
       (RowList [[(''state'', PStr ''Goa''), (''value'', PInt 1)]]) default_states_opts world0))
     = [\<lparr>call_endpoint = states_endpoint (client world0),
         call_json = states_request_body [[(''state'', PStr ''Goa''), (''value'', PInt 1)]]
                       default_states_opts,
         call_timeout = 30\<rparr>]
   \<and> request_data (states_request_body [[(''state'', PStr ''Goa''), (''value'', PInt 1)]]
                     default_states_opts)
     = [PDict [(''state'', PStr ''Goa''), (''value'', PInt 1)]]
   \<and> list_all (only_keys states_required)
       (request_data (states_request_body [[(''state'', PStr ''Goa''), (''value'', PInt 1)]]
                     default_states_opts))"
proof -
  let ?rows = "[[(''state'', PStr ''Goa''), (''value'', PInt 1)]]"
  have a: "?rows \<noteq> []" by simp
  have b: "color_scale default_states_opts \<in> set COLOR_SCALES"
    by (simp add: default_states_opts_def COLOR_SCALES_def)
  have c: "list_all (only_keys states_required) (map PDict ?rows)"
    by (simp add: only_keys_def states_required_def)
  have w: "http_log world0 = []" by (simp add: world0_def)
  from row_input_request_body[OF a b, of "env_with (ok_response PNone)" world0] c w
  show ?thesis by simp
qed

section \<open>Normalizing a table\<close>






lemma dict_set_fresh: "k \<notin> fst ` set d \<Longrightarrow> dict_set d k v = d @ [(k, v)]"
  by (induction d) auto



lemma foldl_dict_set_distinct:
  "distinct (map fst (d @ kvs)) \<Longrightarrow>
   foldl (\<lambda>d kv. dict_set d (fst kv) (snd kv)) d kvs = d @ kvs"
proof (induction kvs arbitrary: d)
  case Nil
  then show ?case by simp
next
  case (Cons kv kvs)
  have fr: "fst kv \<notin> fst ` set d" using Cons.prems by auto
  have "distinct (map fst ((d @ [kv]) @ kvs))" using Cons.prems by simp
  from Cons.IH[OF this] show ?case
    by (simp add: dict_set_fresh[OF fr])
qed

lemma py_dict_distinct: "distinct (map fst kvs) \<Longrightarrow> py_dict kvs = kvs"
  using foldl_dict_set_distinct[of "[]" kvs] by (simp add: py_dict_def)











































end
